theory Spec2Isabelle
  imports Complex_Main "HOL-Library.Log_Nat" "HOL-Library.Word"
begin

section \<open>Floating-point arithmetic of the interpreter and of the array library\<close>

text \<open>
  The program computes with Python floats (IEEE binary64) and with float32 arrays.
  A float is modelled by the rational number it denotes; every arithmetic operation
  is the exact operation followed by rounding to nearest, ties to even, at 53 or 24
  bits of precision.  The rounding itself has no exponent range.  A double of
  magnitude \<open>2 ^ 1024\<close> or more stands for an infinity: the operations of the
  interpreter that raise on such a value test for it (\<open>overflows\<close>).  Underflow is
  not modelled.
\<close>

definition pow2 :: "int \<Rightarrow> rat" where
  "pow2 e = (if 0 \<le> e then 2 ^ nat e else 1 / 2 ^ nat (- e))"

definition rne :: "rat \<Rightarrow> int" where
  "rne x = (let f = \<lfloor>x\<rfloor>; d = x - of_int f in
            if d < 1 / 2 then f else if 1 / 2 < d then f + 1
            else if even f then f else f + 1)"

definition ilog2 :: "rat \<Rightarrow> int" where
  "ilog2 x = (case quotient_of x of (a, b) \<Rightarrow>
     let e0 = bitlen a - bitlen b in if pow2 e0 \<le> x then e0 else e0 - 1)"

definition fl :: "nat \<Rightarrow> rat \<Rightarrow> rat" where
  "fl p x = (if x = 0 then 0 else
     let q = pow2 (ilog2 \<bar>x\<bar> - int p + 1) in of_int (rne (x / q)) * q)"

abbreviation fl64 :: "rat \<Rightarrow> rat" where "fl64 \<equiv> fl 53"
abbreviation fl32 :: "rat \<Rightarrow> rat" where "fl32 \<equiv> fl 24"

definition overflows :: "rat \<Rightarrow> bool" where
  "overflows x = (2 ^ 1024 \<le> \<bar>x\<bar>)"

text \<open>Python's \<open>int(x)\<close> and NumPy's \<open>astype\<close> to an integer type truncate toward zero.\<close>

definition trunc :: "rat \<Rightarrow> int" where
  "trunc x = (if 0 \<le> x then \<lfloor>x\<rfloor> else \<lceil>x\<rceil>)"

section \<open>Errors\<close>

text \<open>
  Every exception the program can raise, with its message.  \<open>LibError\<close> stands for
  an exception raised inside a library routine that is a parameter of the model.
\<close>

datatype error =
    ValueError string
  | TypeError string
  | ZeroDivisionError string
  | FileNotFoundError string
  | IOError string
  | IndexError string
  | OverflowError string
  | DecompressionBombError string
  | LibError string

fun str_error :: "error \<Rightarrow> string" where
  "str_error (ValueError m) = m"
| "str_error (TypeError m) = m"
| "str_error (ZeroDivisionError m) = m"
| "str_error (FileNotFoundError m) = m"
| "str_error (IOError m) = m"
| "str_error (IndexError m) = m"
| "str_error (OverflowError m) = m"
| "str_error (DecompressionBombError m) = m"
| "str_error (LibError m) = m"

text \<open>Sequencing of computations that may raise: the first exception wins.\<close>

definition bind_r :: "error + 'a \<Rightarrow> ('a \<Rightarrow> error + 'b) \<Rightarrow> error + 'b" where
  "bind_r m f = (case m of Inl e \<Rightarrow> Inl e | Inr x \<Rightarrow> f x)"


section \<open>Values and arithmetic of the interpreter\<close>

text \<open>
  A request is a decoded JSON object.  Its values reach the methods of \<open>Picture\<close>
  unchanged, so the methods are modelled on JSON values: \<open>null\<close>, booleans,
  integers of any size, numbers with a fraction or an exponent (the double they are
  read as; a number that reads as an infinity is outside the model), strings (their
  UTF-8 bytes), arrays and objects.  \<open>falsy\<close> is Python's \<open>not v\<close>.
\<close>

datatype jval =
    JNull
  | JBool bool
  | JInt int
  | JFloat rat
  | JStr string
  | JArr "jval list"
  | JObj "(string \<times> jval) list"

fun falsy :: "jval \<Rightarrow> bool" where
  "falsy JNull = True"
| "falsy (JBool b) = (\<not> b)"
| "falsy (JInt i) = (i = 0)"
| "falsy (JFloat x) = (x = 0)"
| "falsy (JStr s) = (s = [])"
| "falsy (JArr xs) = (xs = [])"
| "falsy (JObj kvs) = (kvs = [])"

text \<open>The name of the type of a value, as the interpreter prints it in its messages.\<close>

fun type_name :: "jval \<Rightarrow> string" where
  "type_name JNull = ''NoneType''"
| "type_name (JBool b) = ''bool''"
| "type_name (JInt i) = ''int''"
| "type_name (JFloat x) = ''float''"
| "type_name (JStr s) = ''str''"
| "type_name (JArr xs) = ''list''"
| "type_name (JObj kvs) = ''dict''"

definition quoted :: "string \<Rightarrow> string" where
  "quoted s = [CHR 0x27] @ s @ [CHR 0x27]"

text \<open>The messages of the interpreter are those of CPython 3.11.\<close>

definition binop_error :: "string \<Rightarrow> string \<Rightarrow> string \<Rightarrow> error" where
  "binop_error opr l r =
     TypeError (''unsupported operand type(s) for '' @ opr @ '': '' @ quoted l @ '' and '' @ quoted r)"

definition less_error :: "string \<Rightarrow> string \<Rightarrow> error" where
  "less_error l r =
     TypeError (quoted ''<'' @ '' not supported between instances of '' @ quoted l @ '' and '' @ quoted r)"

definition not_iterable :: "jval \<Rightarrow> error" where
  "not_iterable v = TypeError (quoted (type_name v) @ '' object is not iterable'')"

text \<open>
  The numbers of the interpreter: integers of any size and doubles.  A boolean is
  the integer 1 or 0.
\<close>

datatype number = NInt int | NFloat rat

fun number_of :: "jval \<Rightarrow> number option" where
  "number_of (JBool b) = Some (NInt (if b then 1 else 0))"
| "number_of (JInt i) = Some (NInt i)"
| "number_of (JFloat x) = Some (NFloat x)"
| "number_of _ = None"

fun jval_of :: "number \<Rightarrow> jval" where
  "jval_of (NInt i) = JInt i"
| "jval_of (NFloat x) = JFloat x"

text \<open>The conversion of an integer to a double raises when the integer is too large.\<close>

definition float_of_int :: "int \<Rightarrow> error + rat" where
  "float_of_int i =
     (let x = fl64 (of_int i)
      in if overflows x then Inl (OverflowError ''int too large to convert to float'') else Inr x)"

fun to_float :: "number \<Rightarrow> error + rat" where
  "to_float (NInt i) = float_of_int i"
| "to_float (NFloat x) = Inr x"

text \<open>\<open>int(x)\<close> of a double.\<close>

definition int_of_float :: "rat \<Rightarrow> error + int" where
  "int_of_float x =
     (if overflows x then Inl (OverflowError ''cannot convert float infinity to integer'')
      else Inr (trunc x))"

text \<open>\<open>int(v)\<close> and \<open>round(v)\<close> of a finite number: truncation toward zero, and rounding
  to the nearest integer with ties to even.\<close>

fun int_of_number :: "number \<Rightarrow> int" where
  "int_of_number (NInt i) = i"
| "int_of_number (NFloat x) = trunc x"

fun round_number :: "number \<Rightarrow> int" where
  "round_number (NInt i) = i"
| "round_number (NFloat x) = rne x"

text \<open>Comparison of two numbers is exact.\<close>

fun rat_of_number :: "number \<Rightarrow> rat" where
  "rat_of_number (NInt i) = of_int i"
| "rat_of_number (NFloat x) = x"

definition num_less :: "number \<Rightarrow> number \<Rightarrow> bool" where
  "num_less a b = (rat_of_number a < rat_of_number b)"

text \<open>
  True division \<open>a / b\<close>.  The quotient of two integers is correctly rounded and
  raises when it is too large; otherwise both operands are converted to doubles.
\<close>

fun num_truediv :: "number \<Rightarrow> number \<Rightarrow> error + rat" where
  "num_truediv (NInt i) (NInt j) =
     (if j = 0 then Inl (ZeroDivisionError ''division by zero'')
      else let x = fl64 (of_int i / of_int j)
           in if overflows x
              then Inl (OverflowError ''integer division result too large for a float'')
              else Inr x)"
| "num_truediv a b =
     bind_r (to_float a) (\<lambda>x.
     bind_r (to_float b) (\<lambda>y.
       if y = 0 then Inl (ZeroDivisionError ''float division by zero'')
       else Inr (fl64 (x / y))))"

text \<open>Subtraction, addition and multiplication: exact on integers, in double
  precision otherwise.\<close>

fun num_sub :: "number \<Rightarrow> number \<Rightarrow> error + number" where
  "num_sub (NInt i) (NInt j) = Inr (NInt (i - j))"
| "num_sub a b =
     bind_r (to_float a) (\<lambda>x. bind_r (to_float b) (\<lambda>y. Inr (NFloat (fl64 (x - y)))))"

fun num_add :: "number \<Rightarrow> number \<Rightarrow> error + number" where
  "num_add (NInt i) (NInt j) = Inr (NInt (i + j))"
| "num_add a b =
     bind_r (to_float a) (\<lambda>x. bind_r (to_float b) (\<lambda>y. Inr (NFloat (fl64 (x + y)))))"

fun num_mul :: "number \<Rightarrow> number \<Rightarrow> error + number" where
  "num_mul (NInt i) (NInt j) = Inr (NInt (i * j))"
| "num_mul a b =
     bind_r (to_float a) (\<lambda>x. bind_r (to_float b) (\<lambda>y. Inr (NFloat (fl64 (x * y)))))"

text \<open>
  Floor division \<open>a // b\<close>.  On doubles the interpreter takes the exact remainder
  \<open>fmod\<close>, divides, and snaps the quotient to an integral value.
\<close>

definition fmod :: "rat \<Rightarrow> rat \<Rightarrow> rat" where
  "fmod x y = x - y * of_int (trunc (x / y))"

definition float_floordiv :: "rat \<Rightarrow> rat \<Rightarrow> rat" where
  "float_floordiv x y =
     (let m = fmod x y;
          d0 = fl64 (fl64 (x - m) / y);
          d = (if m \<noteq> 0 \<and> ((y < 0) \<noteq> (m < 0)) then fl64 (d0 - 1) else d0)
      in if d \<noteq> 0 then
           (let f = of_int \<lfloor>d\<rfloor> in if 1 / 2 < d - f then f + 1 else f)
         else 0)"

fun num_floordiv :: "number \<Rightarrow> number \<Rightarrow> error + number" where
  "num_floordiv (NInt i) (NInt j) =
     (if j = 0 then Inl (ZeroDivisionError ''integer division or modulo by zero'')
      else Inr (NInt (i div j)))"
| "num_floordiv a b =
     bind_r (to_float a) (\<lambda>x.
     bind_r (to_float b) (\<lambda>y.
       if y = 0 then Inl (ZeroDivisionError ''float floor division by zero'')
       else Inr (NFloat (float_floordiv x y))))"

text \<open>The same operations on values: an operand that is not a number is a type
  error.\<close>

definition py_truediv :: "jval \<Rightarrow> jval \<Rightarrow> error + rat" where
  "py_truediv a b =
     (case (number_of a, number_of b) of
        (Some x, Some y) \<Rightarrow> num_truediv x y
      | _ \<Rightarrow> Inl (binop_error ''/'' (type_name a) (type_name b)))"

definition py_sub :: "jval \<Rightarrow> jval \<Rightarrow> error + number" where
  "py_sub a b =
     (case (number_of a, number_of b) of
        (Some x, Some y) \<Rightarrow> num_sub x y
      | _ \<Rightarrow> Inl (binop_error ''-'' (type_name a) (type_name b)))"

definition py_floordiv :: "jval \<Rightarrow> jval \<Rightarrow> error + number" where
  "py_floordiv a b =
     (case (number_of a, number_of b) of
        (Some x, Some y) \<Rightarrow> num_floordiv x y
      | _ \<Rightarrow> Inl (binop_error ''//'' (type_name a) (type_name b)))"

text \<open>\<open>v * x\<close> for a value \<open>v\<close> and a double \<open>x\<close>: a string or a list cannot be
  repeated a fractional number of times.\<close>

definition py_mul_float :: "jval \<Rightarrow> rat \<Rightarrow> error + rat" where
  "py_mul_float v x =
     (case number_of v of
        Some a \<Rightarrow> bind_r (to_float a) (\<lambda>y. Inr (fl64 (y * x)))
      | None \<Rightarrow>
          (case v of
             JStr s \<Rightarrow> Inl (TypeError (''can't multiply sequence by non-int of type '' @ quoted ''float''))
           | JArr xs \<Rightarrow> Inl (TypeError (''can't multiply sequence by non-int of type '' @ quoted ''float''))
           | _ \<Rightarrow> Inl (binop_error ''*'' (type_name v) ''float'')))"

text \<open>\<open>tuple(v)\<close>: the items of a list, the characters of a string, the keys of an
  object.\<close>

definition is_continuation :: "char \<Rightarrow> bool" where
  "is_continuation c = (128 \<le> (of_char c :: nat) \<and> (of_char c :: nat) < 192)"

definition chars_of :: "string \<Rightarrow> string list" where
  "chars_of s =
     foldr (\<lambda>c acc. case acc of
                       [] \<Rightarrow> [[c]]
                     | g # gs \<Rightarrow> (case g of
                                    [] \<Rightarrow> [c] # gs
                                  | d # ds \<Rightarrow> if is_continuation d then (c # g) # gs
                                              else [c] # acc)) s []"

fun py_tuple :: "jval \<Rightarrow> error + jval list" where
  "py_tuple (JArr xs) = Inr xs"
| "py_tuple (JStr s) = Inr (map JStr (chars_of s))"
| "py_tuple (JObj kvs) = Inr (map (\<lambda>kv. JStr (fst kv)) kvs)"
| "py_tuple v = Inl (not_iterable v)"

text \<open>The decimal text of an integer.\<close>

fun dec_nat :: "nat \<Rightarrow> string" where
  "dec_nat n =
     (if n < 10 then [''0123456789'' ! n]
      else dec_nat (n div 10) @ [''0123456789'' ! (n mod 10)])"

declare dec_nat.simps [simp del]

definition dec :: "int \<Rightarrow> string" where
  "dec i = (if i < 0 then CHR ''-'' # dec_nat (nat (- i)) else dec_nat (nat i))"
section \<open>Images of the imaging library\<close>

datatype mode = Mode_L | Mode_LA | Mode_RGB | Mode_RGBA | Mode_P | Mode_YCbCr

fun nbands :: "mode \<Rightarrow> nat" where
  "nbands Mode_L = 1"
| "nbands Mode_LA = 2"
| "nbands Mode_RGB = 3"
| "nbands Mode_RGBA = 4"
| "nbands Mode_P = 1"
| "nbands Mode_YCbCr = 3"

type_synonym sample = "8 word"
type_synonym plane = "sample list list"

text \<open>
  An image: its mode, its size (width, height), the file format it was decoded from
  (\<open>None\<close> for every image made in memory), its 8-bit samples and, for an indexed
  image, its palette of RGBA entries.  The samples are kept band by band: the
  sample of channel \<open>k\<close> at row \<open>r\<close> and column \<open>c\<close> is \<open>bands img ! k ! r ! c\<close>.
\<close>

record image =
  mode :: mode
  isize :: "int \<times> int"
  format :: "string option"
  bands :: "plane list"
  palette :: "sample list list"

text \<open>The invariant of a pixel buffer: as many bands as the mode has channels, each of
  \<open>height\<close> rows of \<open>width\<close> samples.\<close>

definition wf_plane :: "int \<times> int \<Rightarrow> 'a list list \<Rightarrow> bool" where
  "wf_plane sz b = (length b = nat (snd sz) \<and> list_all (\<lambda>row. length row = nat (fst sz)) b)"

definition wf_image :: "image \<Rightarrow> bool" where
  "wf_image img =
     (0 \<le> fst (isize img) \<and> 0 \<le> snd (isize img) \<and>
      length (bands img) = nbands (mode img) \<and>
      list_all (wf_plane (isize img)) (bands img))"

text \<open>Two images are pixel-identical: same dimensions, mode and samples.\<close>

definition pixel_identical :: "image \<Rightarrow> image \<Rightarrow> bool" where
  "pixel_identical a b =
     (isize a = isize b \<and> mode a = mode b \<and> bands a = bands b \<and> palette a = palette b)"

datatype resample = NEAREST | LANCZOS | BICUBIC

datatype imgfilter =
    GaussianBlur jval
  | BoxBlur jval
  | Kernel "int \<times> int" "rat list" rat
  | ModeFilter int
  | BLUR
  | FIND_EDGES
  | EDGE_ENHANCE_MORE
  | CONTOUR
  | EMBOSS

datatype enhancer = Brightness | Contrast | Color | Sharpness

text \<open>
  The routines of the libraries whose arithmetic is not part of this repository are
  parameters of the model: the file system, decoding and encoding of files,
  resampling, filtering, enhancement, compositing, drawing, the conversions to
  luminance and to and from luma/chroma, the HSV conversions of \<open>colorsys\<close>, and the
  mean of a float32 array.  A value of the request that the program hands to a
  library routine unchanged is handed to the parameter unchanged.

  \<open>lib_open\<close> is \<open>Image.open\<close>: it reads the header of a file; the samples are decoded
  by \<open>lib_load\<close> (\<open>Image.load\<close>), which the library calls at the first use of the
  image and which can raise on a truncated file.  \<open>lib_paste\<close> and \<open>lib_ellipse\<close> work
  in place: they give the new samples of the image they are applied to.  \<open>lib_crop\<close>
  is the library's cropping of a box that does not consist of four numbers.
  \<open>lib_matmul px m\<close> is the array library's product of the pixel \<open>px\<close>, as a row
  vector of doubles, with the transpose of the matrix \<open>m\<close>; the order and the
  rounding of its additions are the library's.
  \<open>lib_str\<close> is the interpreter's \<open>str\<close> of a value that is neither a string, a
  boolean, an integer nor \<open>None\<close>.  \<open>lib_scalar_prec\<close> is the precision at which the
  array library combines one of its float32 scalars with a Python number: 24 bits
  under its current promotion rules, 53 under its legacy ones.
\<close>

record pil =
  lib_exists :: "jval \<Rightarrow> error + bool"
  lib_open :: "jval \<Rightarrow> error + image"
  lib_b64decode_open :: "jval \<Rightarrow> error + image"
  lib_load :: "image \<Rightarrow> error + unit"
  lib_save_as :: "jval \<Rightarrow> image \<Rightarrow> jval \<Rightarrow> error + unit"
  lib_batch_load :: "jval \<Rightarrow> error + string list"
  lib_save :: "image \<Rightarrow> string \<Rightarrow> int \<Rightarrow> error + string"
  lib_b64encode :: "string \<Rightarrow> string"
  lib_thumbnail :: "image \<Rightarrow> jval \<times> jval \<Rightarrow> resample \<Rightarrow> error + image"
  lib_resize :: "image \<Rightarrow> jval \<times> jval \<Rightarrow> resample \<Rightarrow> error + image"
  lib_rotate :: "image \<Rightarrow> jval \<Rightarrow> jval \<Rightarrow> jval list \<Rightarrow> resample \<Rightarrow> error + image"
  lib_crop :: "image \<Rightarrow> jval \<times> jval \<times> jval \<times> jval \<Rightarrow> error + image"
  lib_convert :: "image \<Rightarrow> mode \<Rightarrow> error + image"
  lib_filter :: "image \<Rightarrow> imgfilter \<Rightarrow> error + image"
  lib_posterize :: "image \<Rightarrow> int \<Rightarrow> error + image"
  lib_blend :: "image \<Rightarrow> image \<Rightarrow> rat \<Rightarrow> error + image"
  lib_paste :: "image \<Rightarrow> image \<Rightarrow> image \<Rightarrow> error + plane list"
  lib_ellipse :: "image \<Rightarrow> int list \<Rightarrow> int \<Rightarrow> error + plane list"
  lib_enhance :: "enhancer \<Rightarrow> image \<Rightarrow> jval \<Rightarrow> error + image"
  lib_expand :: "image \<Rightarrow> jval \<Rightarrow> jval list \<Rightarrow> error + image"
  lib_autocontrast :: "image \<Rightarrow> jval \<Rightarrow> error + image"
  lib_equalize :: "image \<Rightarrow> error + image"
  lib_rgb_to_hsv :: "rat \<times> rat \<times> rat \<Rightarrow> rat \<times> rat \<times> rat"
  lib_hsv_to_rgb :: "rat \<times> rat \<times> rat \<Rightarrow> rat \<times> rat \<times> rat"
  lib_matmul :: "rat \<times> rat \<times> rat \<Rightarrow> rat list list \<Rightarrow> rat \<times> rat \<times> rat"
  lib_mean :: "rat list list \<Rightarrow> rat"
  lib_scalar_prec :: nat
  lib_str :: "jval \<Rightarrow> string"

subsection \<open>Library operations that only move samples\<close>

text \<open>\<open>Image.new(mode, size, color)\<close>: an image filled with one colour.\<close>

definition image_new :: "mode \<Rightarrow> int \<times> int \<Rightarrow> sample list \<Rightarrow> image" where
  "image_new m sz color =
     \<lparr>mode = m, isize = sz, format = None,
      bands = map (\<lambda>c. replicate (nat (snd sz)) (replicate (nat (fst sz)) c)) color,
      palette = []\<rparr>"

text \<open>\<open>Image.copy()\<close>: the same samples in a new object, which has no file format.\<close>

definition copy :: "image \<Rightarrow> image" where
  "copy img = img\<lparr>format := None\<rparr>"

definition pal_lookup :: "sample list list \<Rightarrow> nat \<Rightarrow> sample \<Rightarrow> sample" where
  "pal_lookup pal k s =
     (let e = (if unat s < length pal then pal ! unat s else [])
      in if k < length e then e ! k else if k = 3 then 255 else 0)"

definition opaque :: "plane \<Rightarrow> plane" where
  "opaque b = map (map (\<lambda>s. 255)) b"

text \<open>The bands of \<open>img.convert('RGB')\<close> and \<open>img.convert('RGBA')\<close> for the modes whose
  conversion copies samples: an alpha band is dropped or added, luminance is
  replicated, palette indices are looked up.\<close>

definition to_rgb :: "image \<Rightarrow> plane list" where
  "to_rgb img =
     (case mode img of
        Mode_RGB \<Rightarrow> bands img
      | Mode_RGBA \<Rightarrow> take 3 (bands img)
      | Mode_P \<Rightarrow> (case bands img of [] \<Rightarrow> []
                   | i # _ \<Rightarrow> map (\<lambda>k. map (map (pal_lookup (palette img) k)) i) [0, 1, 2])
      | _ \<Rightarrow> (case bands img of [] \<Rightarrow> [] | l # _ \<Rightarrow> [l, l, l]))"

definition to_rgba :: "image \<Rightarrow> plane list" where
  "to_rgba img =
     (case mode img of
        Mode_RGBA \<Rightarrow> bands img
      | Mode_RGB \<Rightarrow> (case bands img of [] \<Rightarrow> [] | r # _ \<Rightarrow> take 3 (bands img) @ [opaque r])
      | Mode_P \<Rightarrow> (case bands img of [] \<Rightarrow> []
                   | i # _ \<Rightarrow> map (\<lambda>k. map (map (pal_lookup (palette img) k)) i) [0, 1, 2, 3])
      | Mode_LA \<Rightarrow> (case bands img of l # a # _ \<Rightarrow> [l, l, l, a] | _ \<Rightarrow> [])
      | _ \<Rightarrow> (case bands img of [] \<Rightarrow> [] | l # _ \<Rightarrow> [l, l, l, opaque l]))"

text \<open>\<open>Image.convert(mode)\<close>: a copy when the mode is already the requested one; the
  conversions above; every conversion that computes new sample values (to
  luminance, to and from luma/chroma) is the library's.\<close>

definition convert :: "pil \<Rightarrow> image \<Rightarrow> mode \<Rightarrow> error + image" where
  "convert lib img m =
     (if m = mode img then Inr (copy img)
      else if m = Mode_RGB \<and> mode img \<noteq> Mode_YCbCr then
        Inr \<lparr>mode = Mode_RGB, isize = isize img, format = None, bands = to_rgb img, palette = []\<rparr>
      else if m = Mode_RGBA \<and> mode img \<noteq> Mode_YCbCr then
        Inr \<lparr>mode = Mode_RGBA, isize = isize img, format = None, bands = to_rgba img, palette = []\<rparr>
      else lib_convert lib img m)"

text \<open>\<open>Image.split()\<close>: the bands as single-band images.\<close>

definition band_image :: "int \<times> int \<Rightarrow> plane \<Rightarrow> image" where
  "band_image sz b = \<lparr>mode = Mode_L, isize = sz, format = None, bands = [b], palette = []\<rparr>"

definition split :: "image \<Rightarrow> image list" where
  "split img =
     (if nbands (mode img) = 1 then [copy img]
      else map (band_image (isize img)) (bands img))"

text \<open>\<open>Image.merge(mode, bands)\<close>, with the three checks the library makes.\<close>

definition merge :: "mode \<Rightarrow> image list \<Rightarrow> error + image" where
  "merge m bs =
     (if nbands m \<noteq> length bs then Inl (ValueError ''wrong number of bands'')
      else if list_ex (\<lambda>b. mode b \<noteq> Mode_L) (tl bs) then Inl (ValueError ''mode mismatch'')
      else if list_ex (\<lambda>b. isize b \<noteq> isize (hd bs)) (tl bs) then Inl (ValueError ''size mismatch'')
      else Inr \<lparr>mode = m, isize = isize (hd bs), format = None,
                bands = concat (map bands bs), palette = []\<rparr>)"

text \<open>\<open>ImageOps.invert\<close>: every sample \<open>s\<close> becomes \<open>255 - s\<close>; only luminance and RGB
  images are accepted.\<close>

definition ImageOps_invert :: "image \<Rightarrow> error + image" where
  "ImageOps_invert img =
     (if mode img = Mode_L \<or> mode img = Mode_RGB then
        Inr (img\<lparr>format := None, bands := map (map (map (\<lambda>s. 255 - s))) (bands img)\<rparr>)
      else Inl (LibError ''not supported for this image mode''))"

text \<open>
  \<open>Image.crop(box)\<close> on a box of four numbers.  A box whose right or lower edge is
  before its left or upper edge is refused.  The coordinates are rounded to
  integers; a box of more than twice \<open>MAX_IMAGE_PIXELS\<close> pixels is refused as a
  decompression bomb, and so is a coordinate that does not fit the C integers of
  the library (of 32 bits, read through a \<open>long\<close> of 64 bits).  The box may reach
  outside the image, where the result is zero.  The memory of the machine is taken
  to suffice for an image that passes these checks.
\<close>

definition sample_at :: "plane \<Rightarrow> int \<Rightarrow> int \<Rightarrow> sample" where
  "sample_at b y x =
     (if 0 \<le> y \<and> y < int (length b) then
        (let row = b ! nat y in if 0 \<le> x \<and> x < int (length row) then row ! nat x else 0)
      else 0)"

definition crop_plane :: "int \<times> int \<times> int \<times> int \<Rightarrow> plane \<Rightarrow> plane" where
  "crop_plane box b =
     (case box of (left, upper, right, lower) \<Rightarrow>
        map (\<lambda>j. map (\<lambda>i. sample_at b (upper + int j) (left + int i)) [0..<nat (right - left)])
          [0..<nat (lower - upper)])"

definition MAX_IMAGE_PIXELS :: int where
  "MAX_IMAGE_PIXELS = 1024 * 1024 * 1024 div 4 div 3"

definition decompression_bomb_check :: "int \<times> int \<Rightarrow> error + unit" where
  "decompression_bomb_check sz =
     (let pixels = max 1 (fst sz) * max 1 (snd sz)
      in if 2 * MAX_IMAGE_PIXELS < pixels then
           Inl (DecompressionBombError
                  (''Image size ('' @ dec pixels @ '' pixels) exceeds limit of '' @
                   dec (2 * MAX_IMAGE_PIXELS) @
                   '' pixels, could be decompression bomb DOS attack.''))
         else Inr ())"

definition c_int :: "int \<Rightarrow> error + unit" where
  "c_int v =
     (if v < - (2 ^ 63) \<or> 2 ^ 63 \<le> v then
        Inl (OverflowError ''Python int too large to convert to C long'')
      else if 2 ^ 31 \<le> v then Inl (OverflowError ''signed integer is greater than maximum'')
      else if v < - (2 ^ 31) then Inl (OverflowError ''signed integer is less than minimum'')
      else Inr ())"

definition crop_numbers :: "image \<Rightarrow> number \<times> number \<times> number \<times> number \<Rightarrow> error + image" where
  "crop_numbers img box =
     (case box of (left, upper, right, lower) \<Rightarrow>
        if num_less right left then
          Inl (ValueError (''Coordinate 'right' is less than 'left'' @ [CHR 0x27]))
        else if num_less lower upper then
          Inl (ValueError (''Coordinate 'lower' is less than 'upper'' @ [CHR 0x27]))
        else
          let x0 = round_number left; y0 = round_number upper;
              x1 = round_number right; y1 = round_number lower
          in bind_r (decompression_bomb_check (\<bar>x1 - x0\<bar>, \<bar>y1 - y0\<bar>)) (\<lambda>u.
             bind_r (c_int x0) (\<lambda>u. bind_r (c_int y0) (\<lambda>u.
             bind_r (c_int x1) (\<lambda>u. bind_r (c_int y1) (\<lambda>u.
               Inr (img\<lparr>isize := (max 0 (x1 - x0), max 0 (y1 - y0)), format := None,
                         bands := map (crop_plane (x0, y0, x1, y1)) (bands img)\<rparr>)))))))"

definition image_crop :: "pil \<Rightarrow> image \<Rightarrow> jval \<times> jval \<times> jval \<times> jval \<Rightarrow> error + image" where
  "image_crop lib img box =
     (case box of (left, upper, right, lower) \<Rightarrow>
        (case (number_of left, number_of upper, number_of right, number_of lower) of
           (Some l, Some u, Some r, Some b) \<Rightarrow> crop_numbers img (l, u, r, b)
         | _ \<Rightarrow> lib_crop lib img box))"

text \<open>\<open>Image.transpose\<close> with \<open>FLIP_LEFT_RIGHT\<close> and \<open>FLIP_TOP_BOTTOM\<close>.\<close>

definition flip_left_right :: "image \<Rightarrow> image" where
  "flip_left_right img = img\<lparr>format := None, bands := map (map rev) (bands img)\<rparr>"

definition flip_top_bottom :: "image \<Rightarrow> image" where
  "flip_top_bottom img = img\<lparr>format := None, bands := map rev (bands img)\<rparr>"

text \<open>\<open>Image.composite(image1, image2, mask)\<close>: a copy of \<open>image2\<close> on which \<open>image1\<close>
  is pasted through the mask.\<close>

definition composite :: "pil \<Rightarrow> image \<Rightarrow> image \<Rightarrow> image \<Rightarrow> error + image" where
  "composite lib image1 image2 msk =
     bind_r (lib_paste lib (copy image2) image1 msk) (\<lambda>bs. Inr ((copy image2)\<lparr>bands := bs\<rparr>))"

section \<open>Arrays\<close>

text \<open>
  An array of shape (height, width, channels) is kept by channel planes: plane
  \<open>k\<close> is the slice \<open>a[:, :, k]\<close>.  Its elements are the values of floats.
\<close>

record ndarray =
  shape :: "int \<times> int \<times> int"
  planes :: "rat list list list"

text \<open>\<open>np.array(img, dtype=np.float32)\<close>: every 8-bit sample is a float32 exactly.\<close>

definition np_array_f32 :: "image \<Rightarrow> ndarray" where
  "np_array_f32 img =
     \<lparr>shape = (snd (isize img), fst (isize img), int (length (bands img))),
      planes = map (map (map (\<lambda>s. of_int (uint s)))) (bands img)\<rparr>"

definition map_planes :: "(rat \<Rightarrow> rat) \<Rightarrow> ndarray \<Rightarrow> ndarray" where
  "map_planes f a = a\<lparr>planes := map (map (map f)) (planes a)\<rparr>"

text \<open>An update of the slice \<open>a[:, :, k]\<close> in place.\<close>

definition map_plane :: "nat \<Rightarrow> (rat \<Rightarrow> rat) \<Rightarrow> ndarray \<Rightarrow> ndarray" where
  "map_plane k f a =
     (if k < length (planes a) then a\<lparr>planes := (planes a)[k := map (map f) (planes a ! k)]\<rparr>
      else a)"

definition plane_of :: "ndarray \<Rightarrow> nat \<Rightarrow> rat list list" where
  "plane_of a k = (if k < length (planes a) then planes a ! k else [])"

text \<open>\<open>a[:, :, k] *= g\<close> for a Python float or an array-library scalar \<open>g\<close>: the
  multiplication is done in float32, on \<open>g\<close> rounded to float32.\<close>

definition imul_plane :: "nat \<Rightarrow> rat \<Rightarrow> ndarray \<Rightarrow> ndarray" where
  "imul_plane k g a = map_plane k (\<lambda>x. fl32 (x * fl32 g)) a"

definition np_clip :: "ndarray \<Rightarrow> rat \<Rightarrow> rat \<Rightarrow> ndarray" where
  "np_clip a lo hi = map_planes (\<lambda>x. min hi (max lo x)) a"

text \<open>\<open>Image.fromarray(a.astype(np.uint8))\<close> for an array of three or four channels:
  every element is truncated toward zero to an 8-bit sample.\<close>

definition astype_uint8 :: "ndarray \<Rightarrow> plane list" where
  "astype_uint8 a = map (map (map (\<lambda>x. word_of_int (trunc x)))) (planes a)"

definition fromarray :: "ndarray \<Rightarrow> image" where
  "fromarray a =
     (case shape a of (h, w, c) \<Rightarrow>
        \<lparr>mode = (if c = 4 then Mode_RGBA else Mode_RGB), isize = (w, h), format = None,
         bands = astype_uint8 a, palette = []\<rparr>)"

text \<open>The pixels of a three-channel array, and a function applied to every pixel.\<close>

definition zip3_planes :: "'a list list \<Rightarrow> 'a list list \<Rightarrow> 'a list list \<Rightarrow> ('a \<times> 'a \<times> 'a) list list" where
  "zip3_planes r g b = map (\<lambda>(rr, gr, br). zip rr (zip gr br)) (zip r (zip g b))"

definition pixelwise :: "(rat \<times> rat \<times> rat \<Rightarrow> rat \<times> rat \<times> rat) \<Rightarrow> ndarray \<Rightarrow> ndarray" where
  "pixelwise f a =
     (case planes a of
        [r, g, b] \<Rightarrow>
          (let p = map (map f) (zip3_planes r g b)
           in a\<lparr>planes := [map (map fst) p, map (map (\<lambda>t. fst (snd t))) p,
                             map (map (\<lambda>t. snd (snd t))) p]\<rparr>)
      | _ \<Rightarrow> a)"

text \<open>The double nearest to a decimal literal of the source.\<close>

definition lit :: "rat \<Rightarrow> rat" where
  "lit x = fl64 x"

section \<open>Picture\<close>

text \<open>
  The messages of the program are the UTF-8 bytes of the Chinese texts of the
  source; each is introduced by what it says.
\<close>

text \<open>Picture._ensure_image: no image has been set.\<close>

definition msg_no_picture :: string where
  "msg_no_picture =
     [CHR 0xE5, CHR 0xB0, CHR 0x9A, CHR 0xE6, CHR 0x9C, CHR 0xAA, CHR 0xE8, CHR 0xA8, CHR
     0xAD, CHR 0xE5, CHR 0xAE, CHR 0x9A, CHR 0xE5, CHR 0x9C, CHR 0x96, CHR 0xE7, CHR
     0x89, CHR 0x87, CHR 0xEF, CHR 0xBC, CHR 0x8C, CHR 0xE8, CHR 0xAB, CHR 0x8B, CHR
     0xE5, CHR 0x85, CHR 0x88, CHR 0xE4, CHR 0xBD, CHR 0xBF, CHR 0xE7, CHR 0x94, CHR
     0xA8] @ '' set_image() '' @ [CHR 0xE6, CHR 0x88, CHR 0x96, CHR 0xE8, CHR 0xBC, CHR
     0x89, CHR 0xE5, CHR 0x85, CHR 0xA5, CHR 0xE5, CHR 0x9C, CHR 0x96, CHR 0xE7, CHR
     0x89, CHR 0x87]"

text \<open>Picture.art_effect: unknown effect type (prefix).\<close>

definition msg_unknown_effect :: string where
  "msg_unknown_effect =
     [CHR 0xE6, CHR 0x9C, CHR 0xAA, CHR 0xE7, CHR 0x9F, CHR 0xA5, CHR 0xE7, CHR 0x9A, CHR
     0x84, CHR 0xE6, CHR 0x95, CHR 0x88, CHR 0xE6, CHR 0x9E, CHR 0x9C, CHR 0xE9, CHR
     0xA1, CHR 0x9E, CHR 0xE5, CHR 0x9E, CHR 0x8B] @ '': ''"

text \<open>Picture.flip: unknown flip direction (prefix).\<close>

definition msg_unknown_direction :: string where
  "msg_unknown_direction =
     [CHR 0xE6, CHR 0x9C, CHR 0xAA, CHR 0xE7, CHR 0x9F, CHR 0xA5, CHR 0xE7, CHR 0x9A, CHR
     0x84, CHR 0xE7, CHR 0xBF, CHR 0xBB, CHR 0xE8, CHR 0xBD, CHR 0x89, CHR 0xE6, CHR
     0x96, CHR 0xB9, CHR 0xE5, CHR 0x90, CHR 0x91] @ '': ''"

text \<open>\<open>str(v)\<close>, as the f-strings of the program apply it to a value.\<close>

definition py_str :: "pil \<Rightarrow> jval \<Rightarrow> string" where
  "py_str lib v =
     (case v of
        JStr s \<Rightarrow> s
      | JNull \<Rightarrow> ''None''
      | JBool b \<Rightarrow> (if b then ''True'' else ''False'')
      | JInt i \<Rightarrow> dec i
      | _ \<Rightarrow> lib_str lib v)"

definition unpack_error :: error where
  "unpack_error = ValueError ''wrong number of values to unpack''"

text \<open>Every method of \<open>Picture\<close> works on the image held by the object, \<open>self.image\<close>,
  and returns a new image.\<close>

definition ensure_image :: "image option \<Rightarrow> error + image" where
  "ensure_image self_image =
     (case self_image of None \<Rightarrow> Inl (ValueError msg_no_picture) | Some img \<Rightarrow> Inr img)"

definition thumbnail :: "pil \<Rightarrow> image option \<Rightarrow> jval \<times> jval \<Rightarrow> error + image" where
  "thumbnail lib self_image max_size =
     bind_r (ensure_image self_image) (\<lambda>img. lib_thumbnail lib (copy img) max_size LANCZOS)"

text \<open>
  The size computed by \<open>resize\<close> when \<open>keep_aspect\<close> is set: both ratios are true
  divisions by the integer dimensions of the image, the scale is the smaller one,
  and each new dimension is \<open>int(original * scale)\<close>, the product of the dimension
  converted to a double and the scale.
\<close>

definition scaled_int :: "int \<Rightarrow> rat \<Rightarrow> error + int" where
  "scaled_int n scale = bind_r (float_of_int n) (\<lambda>x. int_of_float (fl64 (x * scale)))"

definition keep_aspect_size :: "int \<times> int \<Rightarrow> jval \<times> jval \<Rightarrow> error + int \<times> int" where
  "keep_aspect_size orig new_size =
     (case new_size of (target_width, target_height) \<Rightarrow>
      case orig of (original_width, original_height) \<Rightarrow>
        bind_r (py_truediv target_width (JInt original_width)) (\<lambda>width_ratio.
        bind_r (py_truediv target_height (JInt original_height)) (\<lambda>height_ratio.
          let scale = min width_ratio height_ratio in
          bind_r (scaled_int original_width scale) (\<lambda>new_width.
          bind_r (scaled_int original_height scale) (\<lambda>new_height.
            Inr (new_width, new_height))))))"

definition resize :: "pil \<Rightarrow> image option \<Rightarrow> jval \<times> jval \<Rightarrow> jval \<Rightarrow> error + image" where
  "resize lib self_image new_size keep_aspect =
     bind_r (ensure_image self_image) (\<lambda>img.
       if \<not> falsy keep_aspect then
         bind_r (keep_aspect_size (isize img) new_size) (\<lambda>sz.
           lib_resize lib img (JInt (fst sz), JInt (snd sz)) LANCZOS)
       else lib_resize lib img new_size LANCZOS)"

definition rotate :: "pil \<Rightarrow> image option \<Rightarrow> jval \<Rightarrow> jval \<Rightarrow> jval list \<Rightarrow> error + image" where
  "rotate lib self_image angle expand fill_color =
     bind_r (ensure_image self_image) (\<lambda>img. lib_rotate lib img angle expand fill_color BICUBIC)"

definition crop :: "pil \<Rightarrow> image option \<Rightarrow> jval \<times> jval \<times> jval \<times> jval \<Rightarrow> error + image" where
  "crop lib self_image box = bind_r (ensure_image self_image) (\<lambda>img. image_crop lib img box)"

definition crop_center :: "pil \<Rightarrow> image option \<Rightarrow> jval \<Rightarrow> jval \<Rightarrow> error + image" where
  "crop_center lib self_image width height =
     bind_r (ensure_image self_image) (\<lambda>img.
       case isize img of (img_width, img_height) \<Rightarrow>
         bind_r (bind_r (py_sub (JInt img_width) width) (\<lambda>d. num_floordiv d (NInt 2))) (\<lambda>left.
         bind_r (bind_r (py_sub (JInt img_height) height) (\<lambda>d. num_floordiv d (NInt 2))) (\<lambda>top.
         bind_r (case number_of width of
                   Some w \<Rightarrow> num_add left w
                 | None \<Rightarrow> Inl (binop_error ''+'' (type_name (jval_of left)) (type_name width)))
           (\<lambda>right.
         bind_r (case number_of height of
                   Some h \<Rightarrow> num_add top h
                 | None \<Rightarrow> Inl (binop_error ''+'' (type_name (jval_of top)) (type_name height)))
           (\<lambda>bottom.
         crop lib self_image (jval_of left, jval_of top, jval_of right, jval_of bottom))))))"

definition grayscale :: "pil \<Rightarrow> image option \<Rightarrow> error + image" where
  "grayscale lib self_image = bind_r (ensure_image self_image) (\<lambda>img. convert lib img Mode_L)"

definition art_effect :: "pil \<Rightarrow> image option \<Rightarrow> jval \<Rightarrow> error + image" where
  "art_effect lib self_image effect_type =
     bind_r (ensure_image self_image) (\<lambda>img.
       if effect_type = JStr ''poster'' then
         bind_r (convert lib img Mode_RGB) (\<lambda>rgb. lib_posterize lib rgb 3)
       else if effect_type = JStr ''sketch'' then
         bind_r (convert lib img Mode_L) (\<lambda>gray.
         bind_r (ImageOps_invert gray) (\<lambda>inverted.
         bind_r (lib_filter lib inverted (GaussianBlur (JInt 21))) (\<lambda>blurred.
         bind_r (ImageOps_invert blurred) (\<lambda>unblurred.
         lib_blend lib gray unblurred (1 / 2)))))
       else if effect_type = JStr ''oil_paint'' then
         bind_r (lib_filter lib img (ModeFilter 5)) (\<lambda>result.
         lib_filter lib result EDGE_ENHANCE_MORE)
       else if effect_type = JStr ''cartoon'' then
         bind_r (convert lib img Mode_L) (\<lambda>gray.
         bind_r (lib_filter lib gray FIND_EDGES) (\<lambda>edges.
         bind_r (ImageOps_invert edges) (\<lambda>edges.
         bind_r (convert lib img Mode_RGB) (\<lambda>rgb.
         bind_r (lib_posterize lib rgb 4) (\<lambda>color.
         bind_r (convert lib edges Mode_L) (\<lambda>msk.
         composite lib color (image_new Mode_RGB (isize img) [255, 255, 255]) msk))))))
       else Inl (ValueError (msg_unknown_effect @ py_str lib effect_type)))"

text \<open>The decimal literals 1e-6 and 0.2 of the source.\<close>

definition eps_6 :: rat where "eps_6 = lit (1 / 1000000)"
definition c_02 :: rat where "c_02 = lit (1 / 5)"

definition white_balance :: "pil \<Rightarrow> image option \<Rightarrow> jval \<Rightarrow> error + image" where
  "white_balance lib self_image method =
     bind_r (ensure_image self_image) (\<lambda>img0.
     bind_r (convert lib img0 Mode_RGB) (\<lambda>img.
       let p = lib_scalar_prec lib;
           img_array = np_array_f32 img;
           img_array =
             (if method = JStr ''auto'' \<or> method = JStr ''gray_world'' then
                let avg_r = lib_mean lib (plane_of img_array 0);
                    avg_g = lib_mean lib (plane_of img_array 1);
                    avg_b = lib_mean lib (plane_of img_array 2);
                    avg_gray = fl p (fl32 (fl32 (avg_r + avg_g) + avg_b) / 3);
                    img_array = imul_plane 0 (fl p (avg_gray / fl p (avg_r + fl p eps_6))) img_array;
                    img_array = imul_plane 1 (fl p (avg_gray / fl p (avg_g + fl p eps_6))) img_array;
                    img_array = imul_plane 2 (fl p (avg_gray / fl p (avg_b + fl p eps_6))) img_array
                in img_array
              else img_array)
       in Inr (fromarray (np_clip img_array 0 255))))"

definition brightness :: "pil \<Rightarrow> image option \<Rightarrow> jval \<Rightarrow> error + image" where
  "brightness lib self_image factor =
     bind_r (ensure_image self_image) (\<lambda>img. lib_enhance lib Brightness img factor)"

definition contrast :: "pil \<Rightarrow> image option \<Rightarrow> jval \<Rightarrow> error + image" where
  "contrast lib self_image factor =
     bind_r (ensure_image self_image) (\<lambda>img. lib_enhance lib Contrast img factor)"

definition saturation :: "pil \<Rightarrow> image option \<Rightarrow> jval \<Rightarrow> error + image" where
  "saturation lib self_image factor =
     bind_r (ensure_image self_image) (\<lambda>img. lib_enhance lib Color img factor)"

definition sharpen :: "pil \<Rightarrow> image option \<Rightarrow> jval \<Rightarrow> error + image" where
  "sharpen lib self_image factor =
     bind_r (ensure_image self_image) (\<lambda>img. lib_enhance lib Sharpness img factor)"

text \<open>The motion kernel is \<open>[1 / radius] * int(radius)\<close>, of size \<open>(int(radius), 1)\<close>.\<close>

definition blur :: "pil \<Rightarrow> image option \<Rightarrow> jval \<Rightarrow> jval \<Rightarrow> error + image" where
  "blur lib self_image radius blur_type =
     bind_r (ensure_image self_image) (\<lambda>img.
       if blur_type = JStr ''gaussian'' then lib_filter lib img (GaussianBlur radius)
       else if blur_type = JStr ''box'' then lib_filter lib img (BoxBlur radius)
       else if blur_type = JStr ''motion'' then
         bind_r (py_truediv (JInt 1) radius) (\<lambda>x.
           let n = (case number_of radius of Some r \<Rightarrow> int_of_number r | None \<Rightarrow> 0)
           in lib_filter lib img (Kernel (n, 1) (replicate (nat n) x) 1))
       else lib_filter lib img BLUR)"

definition flip :: "pil \<Rightarrow> image option \<Rightarrow> jval \<Rightarrow> error + image" where
  "flip lib self_image direction =
     bind_r (ensure_image self_image) (\<lambda>img.
       if direction = JStr ''horizontal'' then Inr (flip_left_right img)
       else if direction = JStr ''vertical'' then Inr (flip_top_bottom img)
       else Inl (ValueError (msg_unknown_direction @ py_str lib direction)))"

definition invert :: "pil \<Rightarrow> image option \<Rightarrow> error + image" where
  "invert lib self_image =
     bind_r (ensure_image self_image) (\<lambda>img.
       if mode img = Mode_RGBA then
         (case split img of
            [r, g, b, a] \<Rightarrow>
              bind_r (merge Mode_RGB [r, g, b]) (\<lambda>rgb.
              bind_r (ImageOps_invert rgb) (\<lambda>inverted_rgb.
                case split inverted_rgb of
                  [r2, g2, b2] \<Rightarrow> merge Mode_RGBA [r2, g2, b2, a]
                | _ \<Rightarrow> Inl unpack_error))
          | _ \<Rightarrow> Inl unpack_error)
       else bind_r (convert lib img Mode_RGB) ImageOps_invert)"
section \<open>Picture, continued\<close>

text \<open>
  The matrix of the sepia projection.  \<open>sepia\<close> blends every element of the image
  with the projected one: \<open>img_array * (1 - intensity) + sepia_img * intensity\<close>, where
  the image is a float32 array, the projection a double array and \<open>intensity\<close> a
  number of the interpreter.  The first product is a float32, on the weight rounded
  to float32; the second product and the sum are doubles.
\<close>

definition sepia_matrix :: "rat list list" where
  "sepia_matrix =
     [[lit (393 / 1000), lit (769 / 1000), lit (189 / 1000)],
      [lit (349 / 1000), lit (686 / 1000), lit (168 / 1000)],
      [lit (272 / 1000), lit (534 / 1000), lit (131 / 1000)]]"

definition sepia_blend :: "rat \<Rightarrow> rat \<Rightarrow> rat \<Rightarrow> rat \<Rightarrow> rat" where
  "sepia_blend w v x s = fl64 (fl32 (x * fl32 w) + fl64 (s * v))"

definition sepia_mix :: "pil \<Rightarrow> rat \<Rightarrow> rat \<Rightarrow> rat \<times> rat \<times> rat \<Rightarrow> rat \<times> rat \<times> rat" where
  "sepia_mix lib w v px =
     (case px of (r, g, b) \<Rightarrow>
      case lib_matmul lib px sepia_matrix of (sr, sg, sb) \<Rightarrow>
        (sepia_blend w v r sr, sepia_blend w v g sg, sepia_blend w v b sb))"

definition sepia :: "pil \<Rightarrow> image option \<Rightarrow> jval \<Rightarrow> error + image" where
  "sepia lib self_image intensity =
     bind_r (ensure_image self_image) (\<lambda>img0.
     bind_r (convert lib img0 Mode_RGB) (\<lambda>img.
     bind_r (py_sub (JInt 1) intensity) (\<lambda>w.
     bind_r (case number_of intensity of
               Some i \<Rightarrow> to_float i
             | None \<Rightarrow> Inl (binop_error ''*'' ''float'' (type_name intensity))) (\<lambda>v.
       let img_array = np_array_f32 img;
           result_array = pixelwise (sepia_mix lib (rat_of_number w) v) img_array
       in Inr (fromarray (np_clip result_array 0 255))))))"

definition edge_detect :: "pil \<Rightarrow> image option \<Rightarrow> jval \<Rightarrow> error + image" where
  "edge_detect lib self_image method =
     bind_r (ensure_image self_image) (\<lambda>img.
       if method = JStr ''default'' then lib_filter lib img FIND_EDGES
       else if method = JStr ''enhance'' then lib_filter lib img EDGE_ENHANCE_MORE
       else if method = JStr ''contour'' then lib_filter lib img CONTOUR
       else lib_filter lib img FIND_EDGES)"

definition emboss :: "pil \<Rightarrow> image option \<Rightarrow> error + image" where
  "emboss lib self_image = bind_r (ensure_image self_image) (\<lambda>img. lib_filter lib img EMBOSS)"

definition pixelate :: "pil \<Rightarrow> image option \<Rightarrow> jval \<Rightarrow> error + image" where
  "pixelate lib self_image pixel_size =
     bind_r (ensure_image self_image) (\<lambda>img.
     bind_r (py_floordiv (JInt (fst (isize img))) pixel_size) (\<lambda>w.
     bind_r (py_floordiv (JInt (snd (isize img))) pixel_size) (\<lambda>h.
     bind_r (lib_resize lib img (jval_of w, jval_of h) NEAREST) (\<lambda>small.
       lib_resize lib small (JInt (fst (isize img)), JInt (snd (isize img))) NEAREST))))"

text \<open>The fill value of the ellipse drawn at step \<open>i\<close> of the vignette mask:
  \<open>int(255 * (1 - strength * (1 - i / (min(width, height) / 2))))\<close>.\<close>

definition vignette_alpha :: "jval \<Rightarrow> int \<Rightarrow> int \<Rightarrow> error + int" where
  "vignette_alpha strength m i =
     bind_r (num_truediv (NInt m) (NInt 2)) (\<lambda>half.
     bind_r (num_truediv (NInt i) (NFloat half)) (\<lambda>q.
     bind_r (py_mul_float strength (fl64 (1 - q))) (\<lambda>d.
       int_of_float (fl64 (255 * fl64 (1 - d))))))"

definition vignette_mask :: "pil \<Rightarrow> jval \<Rightarrow> int \<times> int \<Rightarrow> error + image" where
  "vignette_mask lib strength sz =
     (case sz of (width, height) \<Rightarrow>
        fold (\<lambda>i acc. bind_r acc (\<lambda>msk.
                bind_r (vignette_alpha strength (min width height) i) (\<lambda>alpha.
                bind_r (lib_ellipse lib msk [i, i, width - i, height - i] alpha)
                  (\<lambda>bs. Inr (msk\<lparr>bands := bs\<rparr>)))))
          (map int [0..<nat (min width height div 2)])
          (Inr (image_new Mode_L (width, height) [255])))"

definition vignette :: "pil \<Rightarrow> image option \<Rightarrow> jval \<Rightarrow> error + image" where
  "vignette lib self_image strength =
     bind_r (ensure_image self_image) (\<lambda>img0.
     bind_r (convert lib img0 Mode_RGB) (\<lambda>img.
     bind_r (vignette_mask lib strength (isize img)) (\<lambda>msk.
       composite lib img (image_new Mode_RGB (isize img) [0, 0, 0]) msk)))"

text \<open>
  The hue rotation of one pixel; the two conversions are those of \<open>colorsys\<close>.  The
  hue of a gray pixel is the Python float zero; any other hue is a float32 scalar
  of the array library, to which the turn is added at the precision of the library's
  scalars.  \<open>h % 1.0\<close> is the exact remainder, to which one is added when it is
  negative.
\<close>

definition mod_one :: "nat \<Rightarrow> rat \<Rightarrow> rat" where
  "mod_one p h = (let m = fmod h 1 in if m < 0 then fl p (m + 1) else m)"

definition hue_pixel :: "pil \<Rightarrow> rat \<Rightarrow> rat \<times> rat \<times> rat \<Rightarrow> rat \<times> rat \<times> rat" where
  "hue_pixel lib turn px =
     (case lib_rgb_to_hsv lib px of (h, s, v) \<Rightarrow>
        let p = (case px of (r, g, b) \<Rightarrow> if r = g \<and> g = b then 53 else lib_scalar_prec lib);
            h1 = mod_one p (fl p (h + turn))
        in case lib_hsv_to_rgb lib (h1, s, v) of (r, g, b) \<Rightarrow> (fl32 r, fl32 g, fl32 b))"

text \<open>\<open>degrees / 360.0\<close> is computed for every pixel: an image without pixels never
  computes it.\<close>

definition hue_shift :: "pil \<Rightarrow> image option \<Rightarrow> jval \<Rightarrow> error + image" where
  "hue_shift lib self_image degrees =
     bind_r (ensure_image self_image) (\<lambda>img0.
     bind_r (convert lib img0 Mode_RGB) (\<lambda>img.
     bind_r (if concat (concat (bands img)) = [] then Inr 0
             else py_truediv degrees (JFloat 360)) (\<lambda>turn.
       let img_array = map_planes (\<lambda>x. fl32 (x / 255)) (np_array_f32 img);
           result_array = pixelwise (hue_pixel lib turn) img_array;
           result_array = map_planes (\<lambda>x. fl32 (x * 255)) result_array
       in Inr (fromarray result_array))))"

definition add_border :: "pil \<Rightarrow> image option \<Rightarrow> jval \<Rightarrow> jval list \<Rightarrow> error + image" where
  "add_border lib self_image border_width color =
     bind_r (ensure_image self_image) (\<lambda>img. lib_expand lib img border_width color)"

definition auto_contrast :: "pil \<Rightarrow> image option \<Rightarrow> jval \<Rightarrow> error + image" where
  "auto_contrast lib self_image cutoff =
     bind_r (ensure_image self_image) (\<lambda>img.
       if mode img = Mode_RGBA then
         (case split img of
            [r, g, b, alpha] \<Rightarrow>
              bind_r (merge Mode_RGB [r, g, b]) (\<lambda>rgb_img.
              bind_r (lib_autocontrast lib rgb_img cutoff) (\<lambda>result_rgb.
                case split result_rgb of
                  [r, g, b] \<Rightarrow> merge Mode_RGBA [r, g, b, alpha]
                | _ \<Rightarrow> Inl unpack_error))
          | _ \<Rightarrow> Inl unpack_error)
       else if mode img = Mode_LA then
         (case split img of
            [l, alpha] \<Rightarrow>
              bind_r (lib_autocontrast lib l cutoff) (\<lambda>result_l. merge Mode_LA [result_l, alpha])
          | _ \<Rightarrow> Inl unpack_error)
       else lib_autocontrast lib img cutoff)"

text \<open>The block that \<open>equalize\<close> repeats for colour images: to luma/chroma, the luma
  band equalized, back to RGB.\<close>

definition equalize_luma :: "pil \<Rightarrow> image \<Rightarrow> error + image" where
  "equalize_luma lib rgb_img =
     bind_r (convert lib rgb_img Mode_YCbCr) (\<lambda>img_ycbcr.
       case split img_ycbcr of
         [y, cb, cr] \<Rightarrow>
           bind_r (lib_equalize lib y) (\<lambda>y_eq.
           bind_r (merge Mode_YCbCr [y_eq, cb, cr]) (\<lambda>img_ycbcr_eq.
           convert lib img_ycbcr_eq Mode_RGB))
       | _ \<Rightarrow> Inl unpack_error)"

definition equalize :: "pil \<Rightarrow> image option \<Rightarrow> error + image" where
  "equalize lib self_image =
     bind_r (ensure_image self_image) (\<lambda>img.
       if mode img = Mode_RGBA then
         (case split img of
            [r, g, b, alpha] \<Rightarrow>
              bind_r (merge Mode_RGB [r, g, b]) (\<lambda>rgb_img.
              bind_r (equalize_luma lib rgb_img) (\<lambda>result_rgb.
                case split result_rgb of
                  [r, g, b] \<Rightarrow> merge Mode_RGBA [r, g, b, alpha]
                | _ \<Rightarrow> Inl unpack_error))
          | _ \<Rightarrow> Inl unpack_error)
       else if mode img = Mode_RGB then equalize_luma lib img
       else if mode img = Mode_L \<or> mode img = Mode_P then lib_equalize lib img
       else if mode img = Mode_LA then
         (case split img of
            [l, alpha] \<Rightarrow>
              bind_r (lib_equalize lib l) (\<lambda>l_eq. merge Mode_LA [l_eq, alpha])
          | _ \<Rightarrow> Inl unpack_error)
       else bind_r (convert lib img Mode_RGB) (equalize_luma lib))"

text \<open>The factors by which \<open>color_temperature\<close> multiplies the red and the blue
  channel.\<close>

definition temperature_gains :: "jval \<Rightarrow> error + rat \<times> rat" where
  "temperature_gains temperature =
     (case number_of temperature of
        None \<Rightarrow> Inl (less_error (type_name temperature) ''int'')
      | Some t \<Rightarrow>
          if num_less t (NInt 6500) then
            bind_r (num_sub (NInt 6500) t) (\<lambda>d.
            bind_r (num_truediv d (NInt 4500)) (\<lambda>factor.
              Inr (fl64 (1 + fl64 (factor * c_02)), fl64 (1 - fl64 (factor * c_02)))))
          else
            bind_r (num_sub t (NInt 6500)) (\<lambda>d.
            bind_r (num_truediv d (NInt 3500)) (\<lambda>factor.
              Inr (fl64 (1 - fl64 (factor * c_02)), fl64 (1 + fl64 (factor * c_02))))))"

definition color_temperature :: "pil \<Rightarrow> image option \<Rightarrow> jval \<Rightarrow> error + image" where
  "color_temperature lib self_image temperature =
     bind_r (ensure_image self_image) (\<lambda>img0.
     bind_r (convert lib img0 Mode_RGB) (\<lambda>img.
     bind_r (temperature_gains temperature) (\<lambda>gains.
       let img_array = np_array_f32 img;
           img_array = imul_plane 0 (fst gains) img_array;
           img_array = imul_plane 2 (snd gains) img_array
       in Inr (fromarray (np_clip img_array 0 255)))))"
section \<open>The request server\<close>

subsection \<open>Requests and responses\<close>

text \<open>
  A request is a decoded JSON object.  \<open>rget\<close> is \<open>request.get(key)\<close> and
  \<open>rget_default\<close> is \<open>request.get(key, default)\<close>.
\<close>

type_synonym request = "string \<Rightarrow> jval option"

definition rget :: "request \<Rightarrow> string \<Rightarrow> jval" where
  "rget req k = (case req k of None \<Rightarrow> JNull | Some v \<Rightarrow> v)"

definition rget_default :: "request \<Rightarrow> string \<Rightarrow> jval \<Rightarrow> jval" where
  "rget_default req k d = (case req k of None \<Rightarrow> d | Some v \<Rightarrow> v)"

record image_info =
  info_width :: int
  info_height :: int
  info_mode :: mode
  info_format :: string

text \<open>
  The responses: a failure with its error text, or one of the successful shapes.
  The diagnostic \<open>message\<close> texts of successful responses are not modelled.
\<close>

datatype response =
    Failure string
  | Changed image_info string
  | Saved jval
  | Encoded string image_info
  | Info image_info
  | Files "string list"
  | Actions "(string \<times> string list) list"
  | Pong

text \<open>FileHandler.load_file: the file is not found (prefix).\<close>

definition msg_file_not_found :: string where
  "msg_file_not_found =
     [CHR 0xE6, CHR 0x89, CHR 0xBE, CHR 0xE4, CHR 0xB8, CHR 0x8D, CHR 0xE5, CHR 0x88, CHR 0xB0, CHR 0xE6, CHR 0xAA, CHR 0x94, CHR 0xE6, CHR 0xA1, CHR 0x88] @ '': ''"

text \<open>FileHandler.load_file: the image cannot be loaded (prefix).\<close>

definition msg_cannot_load :: string where
  "msg_cannot_load =
     [CHR 0xE7, CHR 0x84, CHR 0xA1, CHR 0xE6, CHR 0xB3, CHR 0x95, CHR 0xE8, CHR 0xBC, CHR 0x89, CHR 0xE5, CHR 0x85, CHR 0xA5, CHR 0xE5, CHR 0x9C, CHR 0x96, CHR 0xE7, CHR 0x89, CHR 0x87] @ '': ''"

text \<open>Missing parameter file_path.\<close>

definition msg_missing_file_path :: string where
  "msg_missing_file_path =
     [CHR 0xE7, CHR 0xBC, CHR 0xBA, CHR 0xE5, CHR 0xB0, CHR 0x91] @ '' file_path '' @
     [CHR 0xE5, CHR 0x8F, CHR 0x83, CHR 0xE6, CHR 0x95, CHR 0xB8]"

text \<open>Missing parameter base64.\<close>

definition msg_missing_base64 :: string where
  "msg_missing_base64 =
     [CHR 0xE7, CHR 0xBC, CHR 0xBA, CHR 0xE5, CHR 0xB0, CHR 0x91] @ '' base64 '' @ [CHR
     0xE5, CHR 0x8F, CHR 0x83, CHR 0xE6, CHR 0x95, CHR 0xB8]"

text \<open>Missing parameter output_path.\<close>

definition msg_missing_output_path :: string where
  "msg_missing_output_path =
     [CHR 0xE7, CHR 0xBC, CHR 0xBA, CHR 0xE5, CHR 0xB0, CHR 0x91] @ '' output_path '' @
     [CHR 0xE5, CHR 0x8F, CHR 0x83, CHR 0xE6, CHR 0x95, CHR 0xB8]"

text \<open>Missing parameter folder_path.\<close>

definition msg_missing_folder_path :: string where
  "msg_missing_folder_path =
     [CHR 0xE7, CHR 0xBC, CHR 0xBA, CHR 0xE5, CHR 0xB0, CHR 0x91] @ '' folder_path '' @
     [CHR 0xE5, CHR 0x8F, CHR 0x83, CHR 0xE6, CHR 0x95, CHR 0xB8]"

text \<open>Missing parameter width or height.\<close>

definition msg_missing_width_height :: string where
  "msg_missing_width_height =
     [CHR 0xE7, CHR 0xBC, CHR 0xBA, CHR 0xE5, CHR 0xB0, CHR 0x91] @ '' width '' @ [CHR
     0xE6, CHR 0x88, CHR 0x96] @ '' height '' @ [CHR 0xE5, CHR 0x8F, CHR 0x83, CHR 0xE6,
     CHR 0x95, CHR 0xB8]"

text \<open>Missing parameter right or bottom.\<close>

definition msg_missing_right_bottom :: string where
  "msg_missing_right_bottom =
     [CHR 0xE7, CHR 0xBC, CHR 0xBA, CHR 0xE5, CHR 0xB0, CHR 0x91] @ '' right '' @ [CHR
     0xE6, CHR 0x88, CHR 0x96] @ '' bottom '' @ [CHR 0xE5, CHR 0x8F, CHR 0x83, CHR 0xE6,
     CHR 0x95, CHR 0xB8]"

text \<open>No image has been loaded yet.\<close>

definition msg_no_image :: string where
  "msg_no_image =
     [CHR 0xE5, CHR 0xB0, CHR 0x9A, CHR 0xE6, CHR 0x9C, CHR 0xAA, CHR 0xE8, CHR 0xBC, CHR
     0x89, CHR 0xE5, CHR 0x85, CHR 0xA5, CHR 0xE5, CHR 0x9C, CHR 0x96, CHR 0xE7, CHR
     0x89, CHR 0x87]"

text \<open>There is no original image to restore.\<close>

definition msg_no_original :: string where
  "msg_no_original =
     [CHR 0xE6, CHR 0xB2, CHR 0x92, CHR 0xE6, CHR 0x9C, CHR 0x89, CHR 0xE5, CHR 0x8E, CHR
     0x9F, CHR 0xE5, CHR 0xA7, CHR 0x8B, CHR 0xE5, CHR 0x9C, CHR 0x96, CHR 0xE7, CHR
     0x89, CHR 0x87, CHR 0xE5, CHR 0x8F, CHR 0xAF, CHR 0xE5, CHR 0xBE, CHR 0xA9, CHR
     0xE5, CHR 0x8E, CHR 0x9F]"

text \<open>Unknown action (prefix).\<close>

definition msg_unknown_action :: string where
  "msg_unknown_action =
     [CHR 0xE6, CHR 0x9C, CHR 0xAA, CHR 0xE7, CHR 0x9F, CHR 0xA5, CHR 0xE7, CHR 0x9A, CHR
     0x84] @ '' action: ''"

subsection \<open>The server object\<close>

text \<open>
  The fields of \<open>IPCServer\<close> that requests read and write: the current image, the
  backup made at load time, and the image held by the \<open>Picture\<close> object.
\<close>

record session =
  current_image :: "image option"
  original_image :: "image option"
  picture_image :: "image option"

definition init_session :: session where
  "init_session = \<lparr>current_image = None, original_image = None, picture_image = None\<rparr>"

definition get_image_info :: "image \<Rightarrow> image_info" where
  "get_image_info img =
     \<lparr>info_width = fst (isize img), info_height = snd (isize img), info_mode = mode img,
      info_format = (case format img of None \<Rightarrow> ''Unknown''
                     | Some f \<Rightarrow> if f = [] then ''Unknown'' else f)\<rparr>"

text \<open>\<open>_create_preview\<close> with its default bound of 1024: the same arithmetic as
  \<open>resize\<close> with \<open>keep_aspect\<close>, on a copy of the image.\<close>

definition create_preview :: "pil \<Rightarrow> image \<Rightarrow> error + image" where
  "create_preview lib img =
     (case isize img of (width, height) \<Rightarrow>
        if width \<le> 1024 \<and> height \<le> 1024 then Inr img
        else
          bind_r (num_truediv (NInt 1024) (NInt width)) (\<lambda>width_ratio.
          bind_r (num_truediv (NInt 1024) (NInt height)) (\<lambda>height_ratio.
            let scale = min width_ratio height_ratio in
            bind_r (scaled_int width scale) (\<lambda>new_width.
            bind_r (scaled_int height scale) (\<lambda>new_height.
              lib_thumbnail lib (copy img) (JInt new_width, JInt new_height) LANCZOS)))))"

text \<open>\<open>_image_to_base64\<close>: the image that is saved, then the encoding.  The \<open>format\<close>
  argument is received and never read.\<close>

definition save_image :: "pil \<Rightarrow> image \<Rightarrow> error + image" where
  "save_image lib img =
     (if mode img = Mode_RGBA \<or> mode img = Mode_LA \<or> mode img = Mode_P then
        (let background = image_new Mode_RGB (isize img) [255, 255, 255] in
         bind_r (if mode img = Mode_P then convert lib img Mode_RGBA else Inr img) (\<lambda>img.
           if mode img = Mode_RGBA \<or> mode img = Mode_LA then
             (case split img of
                [] \<Rightarrow> Inl (IndexError ''tuple index out of range'')
              | bs \<Rightarrow> bind_r (lib_paste lib background img (last bs))
                        (\<lambda>new. Inr (background\<lparr>bands := new\<rparr>)))
           else Inr background))
      else if mode img \<noteq> Mode_RGB then convert lib img Mode_RGB
      else Inr img)"

definition image_to_base64 :: "pil \<Rightarrow> image \<Rightarrow> jval \<Rightarrow> int \<Rightarrow> error + string" where
  "image_to_base64 lib img fmt quality =
     bind_r (save_image lib img) (\<lambda>save_img.
     bind_r (lib_save lib save_img ''JPEG'' quality) (\<lambda>buffer.
       Inr (lib_b64encode lib buffer)))"

text \<open>The preview of an image as the responses carry it, with the default arguments
  of the two helpers.\<close>

definition preview_of :: "pil \<Rightarrow> image \<Rightarrow> error + string" where
  "preview_of lib img =
     bind_r (create_preview lib img) (\<lambda>p. image_to_base64 lib p (JStr ''PNG'') 75)"

text \<open>
  What every transform branch does once the checks on the request are passed:
  the method is called; an exception leaves the session as it was; otherwise the
  result becomes the current image of the server and of the \<open>Picture\<close> object, and
  the response is built from it.  An exception while the preview is built is
  reported after the assignment.
\<close>

definition respond :: "pil \<Rightarrow> session \<Rightarrow> image \<Rightarrow> session \<times> response" where
  "respond lib st img =
     (case preview_of lib img of
        Inl e \<Rightarrow> (st, Failure (str_error e))
      | Inr pv \<Rightarrow> (st, Changed (get_image_info img) pv))"

definition transform :: "pil \<Rightarrow> session \<Rightarrow> error + image \<Rightarrow> session \<times> response" where
  "transform lib st r =
     (if current_image st = None then (st, Failure msg_no_image)
      else case r of
             Inl e \<Rightarrow> (st, Failure (str_error e))
           | Inr img \<Rightarrow> respond lib (st\<lparr>current_image := Some img, picture_image := Some img\<rparr>) img)"

text \<open>The static catalogue returned by \<open>list_actions\<close>: each action with its
  parameters.\<close>

definition catalogue :: "(string \<times> string list) list" where
  "catalogue =
     [(''load_file'', [''file_path'']), (''load_base64'', [''base64'']),
      (''save_file'', [''output_path'', ''quality?'']), (''get_base64'', [''format?'']),
      (''get_info'', []), (''batch_load'', [''folder_path'']), (''reset'', []),
      (''thumbnail'', [''max_width?'', ''max_height?'']),
      (''resize'', [''width'', ''height'', ''keep_aspect?'']),
      (''rotate'', [''angle'', ''expand?'', ''fill_color?'']),
      (''crop'', [''left'', ''top'', ''right'', ''bottom'']),
      (''crop_center'', [''width'', ''height'']), (''flip'', [''direction'']),
      (''grayscale'', []), (''brightness'', [''factor'']), (''contrast'', [''factor'']),
      (''saturation'', [''factor'']), (''white_balance'', [''method?'']),
      (''color_temperature'', [''temperature'']), (''hue_shift'', [''degrees'']),
      (''auto_contrast'', [''cutoff?'']), (''equalize'', []), (''invert'', []),
      (''sepia'', [''intensity?'']), (''blur'', [''radius?'', ''blur_type?'']),
      (''sharpen'', [''factor?'']), (''edge_detect'', [''method?'']), (''emboss'', []),
      (''pixelate'', [''pixel_size?'']), (''vignette'', [''strength?'']),
      (''art_effect'', [''effect_type'']), (''add_border'', [''border_width?'', ''color?''])]"

subsection \<open>The branches of \<open>handle_request\<close>\<close>

text \<open>
  \<open>FileHandler.load_file\<close>: the file must exist; any exception of the library while
  it opens the file is raised again as an \<open>IOError\<close>.
\<close>

definition load_file :: "pil \<Rightarrow> jval \<Rightarrow> error + image" where
  "load_file lib file_path =
     bind_r (lib_exists lib file_path) (\<lambda>found.
       if \<not> found then Inl (FileNotFoundError (msg_file_not_found @ py_str lib file_path))
       else case lib_open lib file_path of
              Inl e \<Rightarrow> Inl (IOError (msg_cannot_load @ str_error e))
            | Inr img \<Rightarrow> Inr img)"

text \<open>
  The two load branches assign the opened image to \<open>current_image\<close> first.  The copy
  that becomes \<open>original_image\<close> decodes the samples; when that raises, the current
  image stays assigned and the backup and the image of the \<open>Picture\<close> object are
  the former ones.
\<close>

definition do_load :: "pil \<Rightarrow> session \<Rightarrow> error + image \<Rightarrow> session \<times> response" where
  "do_load lib st r =
     (case r of
        Inl e \<Rightarrow> (st, Failure (str_error e))
      | Inr img \<Rightarrow>
          (case lib_load lib img of
             Inl e \<Rightarrow> (st\<lparr>current_image := Some img\<rparr>, Failure (str_error e))
           | Inr u \<Rightarrow>
               respond lib \<lparr>current_image = Some img, original_image = Some (copy img),
                            picture_image = Some img\<rparr> img))"

definition do_load_file :: "pil \<Rightarrow> session \<Rightarrow> request \<Rightarrow> session \<times> response" where
  "do_load_file lib st req =
     (let file_path = rget req ''file_path'' in
      if falsy file_path then (st, Failure msg_missing_file_path)
      else do_load lib st (load_file lib file_path))"

definition do_load_base64 :: "pil \<Rightarrow> session \<Rightarrow> request \<Rightarrow> session \<times> response" where
  "do_load_base64 lib st req =
     (let base64_str = rget req ''base64'' in
      if falsy base64_str then (st, Failure msg_missing_base64)
      else do_load lib st (lib_b64decode_open lib base64_str))"

text \<open>\<open>FileHandler.save_as\<close>, which writes the file, is the parameter \<open>lib_save_as\<close>.\<close>

definition do_save_file :: "pil \<Rightarrow> session \<Rightarrow> request \<Rightarrow> session \<times> response" where
  "do_save_file lib st req =
     (let output_path = rget req ''output_path'';
          quality = rget_default req ''quality'' (JInt 95) in
      if falsy output_path then (st, Failure msg_missing_output_path)
      else case current_image st of
             None \<Rightarrow> (st, Failure msg_no_image)
           | Some img \<Rightarrow>
               (case lib_save_as lib output_path img quality of
                  Inl e \<Rightarrow> (st, Failure (str_error e))
                | Inr u \<Rightarrow> (st, Saved output_path)))"

text \<open>The first use of the current image by the encoder decodes its samples, if the
  load has not.\<close>

definition do_get_base64 :: "pil \<Rightarrow> session \<Rightarrow> request \<Rightarrow> session \<times> response" where
  "do_get_base64 lib st req =
     (let fmt = rget_default req ''format'' (JStr ''PNG'') in
      case current_image st of
        None \<Rightarrow> (st, Failure msg_no_image)
      | Some img \<Rightarrow>
          (case bind_r (lib_load lib img) (\<lambda>u. image_to_base64 lib img fmt 75) of
             Inl e \<Rightarrow> (st, Failure (str_error e))
           | Inr b \<Rightarrow> (st, Encoded b (get_image_info img))))"

definition do_get_info :: "session \<Rightarrow> session \<times> response" where
  "do_get_info st =
     (case current_image st of
        None \<Rightarrow> (st, Failure msg_no_image)
      | Some img \<Rightarrow> (st, Info (get_image_info img)))"

definition do_batch_load :: "pil \<Rightarrow> session \<Rightarrow> request \<Rightarrow> session \<times> response" where
  "do_batch_load lib st req =
     (let folder_path = rget req ''folder_path'' in
      if falsy folder_path then (st, Failure msg_missing_folder_path)
      else case lib_batch_load lib folder_path of
             Inl e \<Rightarrow> (st, Failure (str_error e))
           | Inr fs \<Rightarrow> (st, Files fs))"

definition do_reset :: "pil \<Rightarrow> session \<Rightarrow> session \<times> response" where
  "do_reset lib st =
     (case original_image st of
        None \<Rightarrow> (st, Failure msg_no_original)
      | Some orig \<Rightarrow>
          respond lib (st\<lparr>current_image := Some (copy orig), picture_image := Some (copy orig)\<rparr>)
            (copy orig))"

definition do_thumbnail :: "pil \<Rightarrow> session \<Rightarrow> request \<Rightarrow> session \<times> response" where
  "do_thumbnail lib st req =
     (let max_width = rget_default req ''max_width'' (JInt 128);
          max_height = rget_default req ''max_height'' (JInt 128) in
      transform lib st
        (thumbnail lib (picture_image st) (max_width, max_height)))"

definition do_resize :: "pil \<Rightarrow> session \<Rightarrow> request \<Rightarrow> session \<times> response" where
  "do_resize lib st req =
     (let width = rget req ''width'';
          height = rget req ''height'';
          keep_aspect = rget_default req ''keep_aspect'' (JBool False) in
      if falsy width \<or> falsy height then (st, Failure msg_missing_width_height)
      else transform lib st
        (resize lib (picture_image st) (width, height) keep_aspect))"

definition do_rotate :: "pil \<Rightarrow> session \<Rightarrow> request \<Rightarrow> session \<times> response" where
  "do_rotate lib st req =
     (let angle = rget_default req ''angle'' (JInt 0);
          expand = rget_default req ''expand'' (JBool True);
          fill_color = rget_default req ''fill_color'' (JArr [JInt 255, JInt 255, JInt 255]) in
      transform lib st
        (bind_r (py_tuple fill_color) (\<lambda>fill. rotate lib (picture_image st) angle expand fill)))"

definition do_crop :: "pil \<Rightarrow> session \<Rightarrow> request \<Rightarrow> session \<times> response" where
  "do_crop lib st req =
     (let left = rget_default req ''left'' (JInt 0);
          top = rget_default req ''top'' (JInt 0);
          right = rget req ''right'';
          bottom = rget req ''bottom'' in
      if right = JNull \<or> bottom = JNull then (st, Failure msg_missing_right_bottom)
      else transform lib st
        (crop lib (picture_image st) (left, top, right, bottom)))"

definition do_crop_center :: "pil \<Rightarrow> session \<Rightarrow> request \<Rightarrow> session \<times> response" where
  "do_crop_center lib st req =
     (let width = rget req ''width'';
          height = rget req ''height'' in
      if falsy width \<or> falsy height then (st, Failure msg_missing_width_height)
      else transform lib st
        (crop_center lib (picture_image st) width height))"

definition do_grayscale :: "pil \<Rightarrow> session \<Rightarrow> request \<Rightarrow> session \<times> response" where
  "do_grayscale lib st req =
     (transform lib st
        (grayscale lib (picture_image st)))"

definition do_art_effect :: "pil \<Rightarrow> session \<Rightarrow> request \<Rightarrow> session \<times> response" where
  "do_art_effect lib st req =
     (let effect_type = rget_default req ''effect_type'' (JStr ''poster'') in
      transform lib st
        (art_effect lib (picture_image st) effect_type))"

definition do_white_balance :: "pil \<Rightarrow> session \<Rightarrow> request \<Rightarrow> session \<times> response" where
  "do_white_balance lib st req =
     (let method = rget_default req ''method'' (JStr ''auto'') in
      transform lib st
        (white_balance lib (picture_image st) method))"

definition do_brightness :: "pil \<Rightarrow> session \<Rightarrow> request \<Rightarrow> session \<times> response" where
  "do_brightness lib st req =
     (let factor = rget_default req ''factor'' (JFloat 1) in
      transform lib st
        (brightness lib (picture_image st) factor))"

definition do_contrast :: "pil \<Rightarrow> session \<Rightarrow> request \<Rightarrow> session \<times> response" where
  "do_contrast lib st req =
     (let factor = rget_default req ''factor'' (JFloat 1) in
      transform lib st
        (contrast lib (picture_image st) factor))"

definition do_saturation :: "pil \<Rightarrow> session \<Rightarrow> request \<Rightarrow> session \<times> response" where
  "do_saturation lib st req =
     (let factor = rget_default req ''factor'' (JFloat 1) in
      transform lib st
        (saturation lib (picture_image st) factor))"

definition do_sharpen :: "pil \<Rightarrow> session \<Rightarrow> request \<Rightarrow> session \<times> response" where
  "do_sharpen lib st req =
     (let factor = rget_default req ''factor'' (JFloat 1) in
      transform lib st
        (sharpen lib (picture_image st) factor))"

definition do_blur :: "pil \<Rightarrow> session \<Rightarrow> request \<Rightarrow> session \<times> response" where
  "do_blur lib st req =
     (let radius = rget_default req ''radius'' (JFloat 2);
          blur_type = rget_default req ''blur_type'' (JStr ''gaussian'') in
      transform lib st
        (blur lib (picture_image st) radius blur_type))"

definition do_flip :: "pil \<Rightarrow> session \<Rightarrow> request \<Rightarrow> session \<times> response" where
  "do_flip lib st req =
     (let direction = rget_default req ''direction'' (JStr ''horizontal'') in
      transform lib st
        (flip lib (picture_image st) direction))"

definition do_invert :: "pil \<Rightarrow> session \<Rightarrow> request \<Rightarrow> session \<times> response" where
  "do_invert lib st req =
     (transform lib st
        (invert lib (picture_image st)))"

definition do_sepia :: "pil \<Rightarrow> session \<Rightarrow> request \<Rightarrow> session \<times> response" where
  "do_sepia lib st req =
     (let intensity = rget_default req ''intensity'' (JFloat 1) in
      transform lib st
        (sepia lib (picture_image st) intensity))"

definition do_edge_detect :: "pil \<Rightarrow> session \<Rightarrow> request \<Rightarrow> session \<times> response" where
  "do_edge_detect lib st req =
     (let method = rget_default req ''method'' (JStr ''default'') in
      transform lib st
        (edge_detect lib (picture_image st) method))"

definition do_emboss :: "pil \<Rightarrow> session \<Rightarrow> request \<Rightarrow> session \<times> response" where
  "do_emboss lib st req =
     (transform lib st
        (emboss lib (picture_image st)))"

definition do_pixelate :: "pil \<Rightarrow> session \<Rightarrow> request \<Rightarrow> session \<times> response" where
  "do_pixelate lib st req =
     (let pixel_size = rget_default req ''pixel_size'' (JInt 10) in
      transform lib st
        (pixelate lib (picture_image st) pixel_size))"

definition do_vignette :: "pil \<Rightarrow> session \<Rightarrow> request \<Rightarrow> session \<times> response" where
  "do_vignette lib st req =
     (let strength = rget_default req ''strength'' (JFloat (1 / 2)) in
      transform lib st
        (vignette lib (picture_image st) strength))"

definition do_hue_shift :: "pil \<Rightarrow> session \<Rightarrow> request \<Rightarrow> session \<times> response" where
  "do_hue_shift lib st req =
     (let degrees = rget_default req ''degrees'' (JInt 0) in
      transform lib st
        (hue_shift lib (picture_image st) degrees))"

definition do_add_border :: "pil \<Rightarrow> session \<Rightarrow> request \<Rightarrow> session \<times> response" where
  "do_add_border lib st req =
     (let border_width = rget_default req ''border_width'' (JInt 10);
          color = rget_default req ''color'' (JArr [JInt 0, JInt 0, JInt 0]) in
      transform lib st
        (bind_r (py_tuple color) (\<lambda>c. add_border lib (picture_image st) border_width c)))"

definition do_auto_contrast :: "pil \<Rightarrow> session \<Rightarrow> request \<Rightarrow> session \<times> response" where
  "do_auto_contrast lib st req =
     (let cutoff = rget_default req ''cutoff'' (JInt 0) in
      transform lib st
        (auto_contrast lib (picture_image st) cutoff))"

definition do_equalize :: "pil \<Rightarrow> session \<Rightarrow> request \<Rightarrow> session \<times> response" where
  "do_equalize lib st req =
     (transform lib st
        (equalize lib (picture_image st)))"

definition do_color_temperature :: "pil \<Rightarrow> session \<Rightarrow> request \<Rightarrow> session \<times> response" where
  "do_color_temperature lib st req =
     (let temperature = rget_default req ''temperature'' (JInt 6500) in
      transform lib st
        (color_temperature lib (picture_image st) temperature))"

text \<open>
  The names of the transform actions, in the order of the source.
\<close>

definition transform_actions :: "string list" where
  "transform_actions =
     [''thumbnail'', ''resize'', ''rotate'', ''crop'', ''crop_center'', ''grayscale'',
      ''art_effect'', ''white_balance'', ''brightness'', ''contrast'', ''saturation'',
      ''sharpen'', ''blur'', ''flip'', ''invert'', ''sepia'', ''edge_detect'',
      ''emboss'', ''pixelate'', ''vignette'', ''hue_shift'', ''add_border'',
      ''auto_contrast'', ''equalize'', ''color_temperature'']"

text \<open>The branch of a transform action.\<close>

definition do_transform :: "pil \<Rightarrow> session \<Rightarrow> string \<Rightarrow> request \<Rightarrow> session \<times> response" where
  "do_transform lib st a req =
     (if a = ''thumbnail'' then do_thumbnail lib st req
      else if a = ''resize'' then do_resize lib st req
      else if a = ''rotate'' then do_rotate lib st req
      else if a = ''crop'' then do_crop lib st req
      else if a = ''crop_center'' then do_crop_center lib st req
      else if a = ''grayscale'' then do_grayscale lib st req
      else if a = ''art_effect'' then do_art_effect lib st req
      else if a = ''white_balance'' then do_white_balance lib st req
      else if a = ''brightness'' then do_brightness lib st req
      else if a = ''contrast'' then do_contrast lib st req
      else if a = ''saturation'' then do_saturation lib st req
      else if a = ''sharpen'' then do_sharpen lib st req
      else if a = ''blur'' then do_blur lib st req
      else if a = ''flip'' then do_flip lib st req
      else if a = ''invert'' then do_invert lib st req
      else if a = ''sepia'' then do_sepia lib st req
      else if a = ''edge_detect'' then do_edge_detect lib st req
      else if a = ''emboss'' then do_emboss lib st req
      else if a = ''pixelate'' then do_pixelate lib st req
      else if a = ''vignette'' then do_vignette lib st req
      else if a = ''hue_shift'' then do_hue_shift lib st req
      else if a = ''add_border'' then do_add_border lib st req
      else if a = ''auto_contrast'' then do_auto_contrast lib st req
      else if a = ''equalize'' then do_equalize lib st req
      else do_color_temperature lib st req)"

subsection \<open>\<open>handle_request\<close>\<close>

definition handle_request :: "pil \<Rightarrow> session \<Rightarrow> request \<Rightarrow> session \<times> response" where
  "handle_request lib st req =
     (let action = rget req ''action'' in
      if action = JStr ''load_file'' then do_load_file lib st req
      else if action = JStr ''load_base64'' then do_load_base64 lib st req
      else if action = JStr ''save_file'' then do_save_file lib st req
      else if action = JStr ''get_base64'' then do_get_base64 lib st req
      else if action = JStr ''get_info'' then do_get_info st
      else if action = JStr ''batch_load'' then do_batch_load lib st req
      else if action \<in> JStr ` set transform_actions then do_transform lib st (py_str lib action) req
      else if action = JStr ''reset'' then do_reset lib st
      else if action = JStr ''list_actions'' then (st, Actions catalogue)
      else if action = JStr ''ping'' then (st, Pong)
      else (st, Failure (msg_unknown_action @ py_str lib action)))"

text \<open>A run of the server on a sequence of requests: the final session and the
  responses, in order.\<close>

fun run :: "pil \<Rightarrow> session \<Rightarrow> request list \<Rightarrow> session \<times> response list" where
  "run lib st [] = (st, [])"
| "run lib st (req # reqs) =
     (case handle_request lib st req of
        (st1, resp) \<Rightarrow> (case run lib st1 reqs of (st2, resps) \<Rightarrow> (st2, resp # resps)))"

section \<open>A small instance of the library\<close>

text \<open>
  An instance of the library interface on which the model can be run: decoding
  yields a fixed one-pixel image, the encoder returns the name of the format it was
  asked for, the mean of a plane is the exact mean rounded to float32, the matrix
  product adds its three terms from left to right in double precision, and every
  other image routine returns its argument unchanged (resizing to two integers
  sets the size, conversion sets the mode).
\<close>

definition dot3 :: "rat list \<Rightarrow> rat \<times> rat \<times> rat \<Rightarrow> rat" where
  "dot3 row px =
     (case row of
        [m0, m1, m2] \<Rightarrow>
          (case px of (r, g, b) \<Rightarrow> fl64 (fl64 (fl64 (r * m0) + fl64 (g * m1)) + fl64 (b * m2)))
      | _ \<Rightarrow> 0)"

definition matmul3 :: "rat \<times> rat \<times> rat \<Rightarrow> rat list list \<Rightarrow> rat \<times> rat \<times> rat" where
  "matmul3 px m =
     (case m of
        [row0, row1, row2] \<Rightarrow> (dot3 row0 px, dot3 row1 px, dot3 row2 px)
      | _ \<Rightarrow> px)"

definition set_size :: "image \<Rightarrow> jval \<times> jval \<Rightarrow> image" where
  "set_size i sz =
     (case sz of
        (JInt w, JInt h) \<Rightarrow> i\<lparr>isize := (w, h)\<rparr>
      | _ \<Rightarrow> i)"

definition exact_mean :: "rat list list \<Rightarrow> rat" where
  "exact_mean p =
     (let xs = concat p in if xs = [] then 0 else fl32 (sum_list xs / of_nat (length xs)))"

definition demo_image :: image where
  "demo_image =
     \<lparr>mode = Mode_RGB, isize = (1, 1), format = Some ''PNG'',
      bands = [[[10]], [[10]], [[10]]], palette = []\<rparr>"

definition demo_lib :: pil where
  "demo_lib =
     \<lparr>lib_exists = (\<lambda>p. Inr True),
      lib_open = (\<lambda>p. Inr demo_image),
      lib_b64decode_open = (\<lambda>s. Inr demo_image),
      lib_load = (\<lambda>i. Inr ()),
      lib_save_as = (\<lambda>p i q. Inr ()),
      lib_batch_load = (\<lambda>p. Inr []),
      lib_save = (\<lambda>i f q. Inr f),
      lib_b64encode = (\<lambda>s. s),
      lib_thumbnail = (\<lambda>i sz r. Inr i),
      lib_resize = (\<lambda>i sz r. Inr (set_size i sz)),
      lib_rotate = (\<lambda>i a e f r. Inr i),
      lib_crop = (\<lambda>i b. Inl (TypeError ''a number is required'')),
      lib_convert = (\<lambda>i m. Inr (i\<lparr>mode := m, format := None\<rparr>)),
      lib_filter = (\<lambda>i f. Inr i),
      lib_posterize = (\<lambda>i n. Inr i),
      lib_blend = (\<lambda>a b t. Inr a),
      lib_paste = (\<lambda>d s m. Inr (bands d)),
      lib_ellipse = (\<lambda>m b f. Inr (bands m)),
      lib_enhance = (\<lambda>k i f. Inr i),
      lib_expand = (\<lambda>i w c. Inr i),
      lib_autocontrast = (\<lambda>i c. Inr i),
      lib_equalize = (\<lambda>i. Inr i),
      lib_rgb_to_hsv = (\<lambda>p. p),
      lib_hsv_to_rgb = (\<lambda>p. p),
      lib_matmul = matmul3,
      lib_mean = exact_mean,
      lib_scalar_prec = 24,
      lib_str = (\<lambda>v. ''<value>'')\<rparr>"

section \<open>Definitions used to state the properties\<close>

text \<open>
  The specification's reading of the aspect-preserving size: the exact scale, each
  dimension rounded to the nearest integer and at least 1.
\<close>

definition spec_keep_aspect_size :: "int \<times> int \<Rightarrow> int \<times> int \<Rightarrow> int \<times> int" where
  "spec_keep_aspect_size orig new_size =
     (case new_size of (tw, th) \<Rightarrow> case orig of (sw, sh) \<Rightarrow>
        let scale = min (of_int tw / of_int sw) (of_int th / of_int sh) :: rat
        in (max 1 (round (of_int sw * scale)), max 1 (round (of_int sh * scale))))"

text \<open>
  The aspect-preserving size in binary64 arithmetic: each ratio is the double
  nearest to the quotient, the scale is the smaller ratio, and each dimension is the
  double nearest to the product of the source dimension and the scale, truncated
  toward zero.
\<close>

definition aspect_size :: "int \<times> int \<Rightarrow> int \<times> int \<Rightarrow> int \<times> int" where
  "aspect_size orig new_size =
     (case new_size of (tw, th) \<Rightarrow> case orig of (sw, sh) \<Rightarrow>
        let scale = min (fl64 (of_int tw / of_int sw)) (fl64 (of_int th / of_int sh))
        in (trunc (fl64 (of_int sw * scale)), trunc (fl64 (of_int sh * scale))))"

text \<open>A \<open>resize\<close> request with the integer target (tw, th) and \<open>keep_aspect\<close> set.\<close>

definition resize_aspect_request :: "request \<Rightarrow> int \<Rightarrow> int \<Rightarrow> bool" where
  "resize_aspect_request req tw th =
     (rget req ''action'' = JStr ''resize'' \<and>
      rget req ''width'' = JInt tw \<and> rget req ''height'' = JInt th \<and>
      \<not> falsy (rget_default req ''keep_aspect'' (JBool False)))"

text \<open>
  The error text of a transform or reset request received before any image is
  loaded.  The texts \<open>msg_no_image\<close> and \<open>msg_no_original\<close> are the program's reports of
  "no image loaded"; the other two report a missing parameter.
\<close>

definition empty_error :: "string \<Rightarrow> request \<Rightarrow> string" where
  "empty_error a req =
     (if a = ''reset'' then msg_no_original
      else if (a = ''resize'' \<or> a = ''crop_center'') \<and>
              (falsy (rget req ''width'') \<or> falsy (rget req ''height''))
        then msg_missing_width_height
      else if a = ''crop'' \<and> (rget req ''right'' = JNull \<or> rget req ''bottom'' = JNull)
        then msg_missing_right_bottom
      else msg_no_image)"


text \<open>
  The library does not look at the file format recorded in an image when it
  encodes, converts or pastes it.
\<close>

definition format_blind :: "pil \<Rightarrow> bool" where
  "format_blind lib =
     (\<forall>img f. lib_save lib (img\<lparr>format := f\<rparr>) = lib_save lib img \<and>
              lib_convert lib (img\<lparr>format := f\<rparr>) = lib_convert lib img \<and>
              (\<forall>d m. lib_paste lib d (img\<lparr>format := f\<rparr>) m = lib_paste lib d img m))"

definition is_load :: "request \<Rightarrow> bool" where
  "is_load req = (rget req ''action'' = JStr ''load_file'' \<or> rget req ''action'' = JStr ''load_base64'')"

text \<open>
  The alpha band of an image whose mode has one is its last band.  An image has the
  band count of its mode.  The library's contrast, equalization and conversion
  routines succeed on such images and return an image of the expected mode, of the
  same size and with the band count of its mode.
\<close>

definition has_alpha :: "mode \<Rightarrow> bool" where
  "has_alpha m = (m = Mode_LA \<or> m = Mode_RGBA)"

definition alpha_band :: "image \<Rightarrow> plane" where
  "alpha_band img = last (bands img)"

definition band_ok :: "image \<Rightarrow> bool" where
  "band_ok img = (length (bands img) = nbands (mode img))"

definition keeps_shape :: "image \<Rightarrow> mode \<Rightarrow> error + image \<Rightarrow> bool" where
  "keeps_shape i m r =
     (case r of Inl e \<Rightarrow> False
      | Inr out \<Rightarrow> mode out = m \<and> isize out = isize i \<and> band_ok out)"

definition lib_keeps_shape :: "pil \<Rightarrow> bool" where
  "lib_keeps_shape lib =
     (\<forall>i. band_ok i \<longrightarrow>
        (\<forall>c. keeps_shape i (mode i) (lib_autocontrast lib i c)) \<and>
        keeps_shape i (mode i) (lib_equalize lib i) \<and>
        (\<forall>m. nbands m = nbands (mode i) \<longrightarrow> keeps_shape i m (lib_convert lib i m)))"

text \<open>
  An image pasted onto an opaque white background of its size through its alpha
  band.
\<close>

definition paste_on_white :: "pil \<Rightarrow> image \<Rightarrow> error + image" where
  "paste_on_white lib img =
     (let white = image_new Mode_RGB (isize img) [255, 255, 255]
      in bind_r (lib_paste lib white img (band_image (isize img) (alpha_band img)))
           (\<lambda>new. Inr (white\<lparr>bands := new\<rparr>)))"

definition rgba_of_palette :: "image \<Rightarrow> image" where
  "rgba_of_palette img =
     \<lparr>mode = Mode_RGBA, isize = isize img, format = None, bands = to_rgba img, palette = []\<rparr>"

definition rgb_of_luminance :: "image \<Rightarrow> image" where
  "rgb_of_luminance img =
     \<lparr>mode = Mode_RGB, isize = isize img, format = None,
      bands = [hd (bands img), hd (bands img), hd (bands img)], palette = []\<rparr>"

text \<open>
  The answer of a transform request, with an image loaded, whose method returned
  \<open>r\<close>: an exception is reported and the session is as before; a returned image
  replaces the current image of the server and of the \<open>Picture\<close> object, and the
  response carries its description and its preview, or reports the exception that
  the preview raised.
\<close>

definition outcome :: "pil \<Rightarrow> session \<Rightarrow> error + image \<Rightarrow> session \<times> response" where
  "outcome lib st r =
     (case r of
        Inl e \<Rightarrow> (st, Failure (str_error e))
      | Inr out \<Rightarrow>
          (st\<lparr>current_image := Some out, picture_image := Some out\<rparr>,
           case preview_of lib out of
             Inl e \<Rightarrow> Failure (str_error e)
           | Inr pv \<Rightarrow> Changed (get_image_info out) pv))"

text \<open>The conversion of an image to RGB that only moves samples.\<close>

definition rgb_conversion :: "image \<Rightarrow> image" where
  "rgb_conversion img =
     \<lparr>mode = Mode_RGB, isize = isize img, format = None, bands = to_rgb img, palette = []\<rparr>"








section \<open>Facts about the floating-point model\<close>

lemma pow2_powi: "pow2 e = 2 powi e"
  by (simp add: pow2_def power_int_def inverse_eq_divide power_one_over)

lemma pow2_pos [simp]: "0 < pow2 e"
  by (simp add: pow2_powi)

lemma pow2_nonneg [simp]: "0 \<le> pow2 e"
  using pow2_pos [of e] by (rule less_imp_le)

lemma pow2_neq0 [simp]: "pow2 e \<noteq> 0"
  using pow2_pos [of e] by (simp only: less_le) simp

lemma pow2_not_le0 [simp]: "\<not> pow2 e \<le> 0"
  using pow2_pos [of e] by (simp only: not_le)

lemma pow2_not_less0 [simp]: "\<not> pow2 e < 0"
  by (simp add: not_less)

lemma pow2_0 [simp]: "pow2 0 = 1"
  by (simp add: pow2_def)

lemma pow2_nat: "pow2 (int n) = 2 ^ n"
  by (simp add: pow2_def)

lemma pow2_add: "pow2 (a + b) = pow2 a * pow2 b"
  by (simp add: pow2_powi power_int_add)

lemma pow2_diff: "pow2 (a - b) = pow2 a / pow2 b"
  by (simp add: pow2_powi power_int_diff)

lemma pow2_mono: "a \<le> b \<Longrightarrow> pow2 a \<le> pow2 b"
  by (simp add: pow2_powi power_int_increasing)

lemma pow2_strict_mono: "a < b \<Longrightarrow> pow2 a < pow2 b"
  by (simp add: pow2_powi power_int_strict_increasing)

lemma pow2_less_cancel: "pow2 a < pow2 b \<Longrightarrow> a < b"
  using pow2_mono [of b a] by (cases "a < b") auto

lemma ilog2_bounds:
  assumes "0 < x"
  shows "pow2 (ilog2 x) \<le> x \<and> x < pow2 (ilog2 x + 1)"
proof -
  obtain a b where q: "quotient_of x = (a, b)" by (cases "quotient_of x")
  then have b: "0 < b" and x: "x = of_int a / of_int b"
    by (simp_all add: quotient_of_denom_pos quotient_of_div)
  with assms have a: "0 < a" by (simp add: zero_less_divide_iff)
  define la lb where "la = bitlen a" and "lb = bitlen b"
  from bitlen_bounds [OF a] have a1: "2 ^ nat (la - 1) \<le> a" and a2: "a < 2 ^ nat la"
    by (simp_all add: la_def)
  from bitlen_bounds [OF b] have b1: "2 ^ nat (lb - 1) \<le> b" and b2: "b < 2 ^ nat lb"
    by (simp_all add: lb_def)
  have la: "1 \<le> la" using a bitlen_eq_zero_iff [of a] bitlen_nonneg [of a] by (simp add: la_def)
  have lb: "1 \<le> lb" using b bitlen_eq_zero_iff [of b] bitlen_nonneg [of b] by (simp add: lb_def)
  have ra1: "pow2 (la - 1) \<le> of_int a"
  proof -
    have "rat_of_int (2 ^ nat (la - 1)) \<le> of_int a" using a1 by (simp only: of_int_le_iff)
    then show ?thesis using la by (simp add: pow2_def)
  qed
  have ra2: "of_int a < pow2 la"
  proof -
    have "rat_of_int a < of_int (2 ^ nat la)" using a2 by (simp only: of_int_less_iff)
    then show ?thesis using la by (simp add: pow2_def)
  qed
  have rb1: "pow2 (lb - 1) \<le> of_int b"
  proof -
    have "rat_of_int (2 ^ nat (lb - 1)) \<le> of_int b" using b1 by (simp only: of_int_le_iff)
    then show ?thesis using lb by (simp add: pow2_def)
  qed
  have rb2: "of_int b < pow2 lb"
  proof -
    have "rat_of_int b < of_int (2 ^ nat lb)" using b2 by (simp only: of_int_less_iff)
    then show ?thesis using lb by (simp add: pow2_def)
  qed
  have rb: "0 < rat_of_int b" and ra: "0 < rat_of_int a" using a b by simp_all
  have lo: "pow2 (la - lb - 1) < x"
  proof -
    have "pow2 (la - lb - 1) = pow2 (la - 1) / pow2 lb"
      by (simp add: pow2_diff [symmetric] algebra_simps)
    also have "\<dots> \<le> of_int a / pow2 lb"
      using ra1 by (simp add: divide_right_mono)
    also have "\<dots> < of_int a / of_int b"
      using rb2 rb ra by (simp add: divide_strict_left_mono)
    finally show ?thesis by (simp add: x)
  qed
  have hi: "x < pow2 (la - lb + 1)"
  proof -
    have "x = of_int a / of_int b" by (rule x)
    also have "\<dots> < pow2 la / of_int b"
      using ra2 rb by (simp add: divide_strict_right_mono)
    also have "\<dots> \<le> pow2 la / pow2 (lb - 1)"
      using rb1 rb by (intro divide_left_mono) simp_all
    also have "\<dots> = pow2 (la - lb + 1)"
      by (simp add: pow2_diff [symmetric] algebra_simps)
    finally show ?thesis .
  qed
  show ?thesis
  proof (cases "pow2 (la - lb) \<le> x")
    case True
    then have "ilog2 x = la - lb" by (simp add: ilog2_def q la_def lb_def)
    with True hi show ?thesis by simp
  next
    case False
    then have "ilog2 x = la - lb - 1" by (simp add: ilog2_def q la_def lb_def)
    with False lo show ?thesis by simp
  qed
qed

lemma ilog2_unique:
  assumes "pow2 e \<le> x" and "x < pow2 (e + 1)"
  shows "ilog2 x = e"
proof -
  have x: "0 < x" using assms(1) pow2_pos [of e] by (rule less_le_trans [rotated])
  from ilog2_bounds [OF x] have b: "pow2 (ilog2 x) \<le> x" "x < pow2 (ilog2 x + 1)" by simp_all
  from assms(1) b(2) have "pow2 e < pow2 (ilog2 x + 1)" by (rule le_less_trans)
  then have 1: "e < ilog2 x + 1" by (rule pow2_less_cancel)
  from b(1) assms(2) have "pow2 (ilog2 x) < pow2 (e + 1)" by (rule le_less_trans)
  then have 2: "ilog2 x < e + 1" by (rule pow2_less_cancel)
  from 1 2 show ?thesis by simp
qed


lemma rne_of_int [simp]: "rne (of_int n) = n"
  by (simp add: rne_def)

lemma rne_cases: "rne x = \<lfloor>x\<rfloor> \<or> rne x = \<lfloor>x\<rfloor> + 1"
  by (simp add: rne_def Let_def)

lemma rne_mono:
  assumes "x \<le> y"
  shows "rne x \<le> rne y"
proof -
  have fg: "\<lfloor>x\<rfloor> \<le> \<lfloor>y\<rfloor>" using assms by (rule floor_mono)
  show ?thesis
  proof (cases "\<lfloor>x\<rfloor> = \<lfloor>y\<rfloor>")
    case False
    with fg have "\<lfloor>x\<rfloor> + 1 \<le> \<lfloor>y\<rfloor>" by simp
    moreover have "rne x \<le> \<lfloor>x\<rfloor> + 1" using rne_cases [of x] by auto
    moreover have "\<lfloor>y\<rfloor> \<le> rne y" using rne_cases [of y] by auto
    ultimately show ?thesis by linarith
  next
    case True
    with assms have "x - of_int \<lfloor>x\<rfloor> \<le> y - of_int \<lfloor>y\<rfloor>" by simp
    with True show ?thesis
      by (auto simp add: rne_def Let_def)
  qed
qed

lemma rne_lower: "of_int m \<le> x \<Longrightarrow> m \<le> rne x"
  using rne_mono [of "of_int m" x] by simp

lemma rne_upper: "x \<le> of_int m \<Longrightarrow> rne x \<le> m"
  using rne_mono [of x "of_int m"] by simp

lemma fl_0 [simp]: "fl p 0 = 0"
  by (simp add: fl_def)

lemma fl_cert:
  assumes "pow2 e \<le> \<bar>x\<bar>" and "\<bar>x\<bar> < pow2 (e + 1)"
  shows "fl p x = of_int (rne (x / pow2 (e - int p + 1))) * pow2 (e - int p + 1)"
proof -
  have "x \<noteq> 0" using assms(1) pow2_pos [of e] by auto
  moreover have "ilog2 \<bar>x\<bar> = e" using assms by (rule ilog2_unique)
  ultimately show ?thesis by (simp add: fl_def Let_def)
qed

lemma fl_exact:
  assumes "x = of_int m * pow2 k" and "\<bar>m\<bar> < 2 ^ p"
  shows "fl p x = x"
proof (cases "m = 0")
  case True
  with assms(1) show ?thesis by simp
next
  case False
  then have x0: "0 < \<bar>x\<bar>" by (simp add: assms(1))
  define e where "e = ilog2 \<bar>x\<bar>"
  from ilog2_bounds [OF x0] have b: "pow2 e \<le> \<bar>x\<bar>" "\<bar>x\<bar> < pow2 (e + 1)"
    by (simp_all add: e_def)
  have "\<bar>x\<bar> = of_int \<bar>m\<bar> * pow2 k" by (simp add: assms(1) abs_mult)
  also have "\<dots> < of_int (2 ^ p) * pow2 k"
    using assms(2) by (simp only: of_int_less_iff mult_less_cancel_right pow2_pos) simp
  also have "\<dots> = pow2 (int p + k)" by (simp add: pow2_add pow2_nat)
  finally have "\<bar>x\<bar> < pow2 (int p + k)" .
  with b(1) have "pow2 e < pow2 (int p + k)" by (rule le_less_trans)
  then have ek: "e < int p + k" by (rule pow2_less_cancel)
  define j where "j = nat (k - (e - int p + 1))"
  have j: "k = (e - int p + 1) + int j" using ek by (simp add: j_def)
  have "x / pow2 (e - int p + 1) = of_int m * pow2 (int j)"
    by (simp add: assms(1) pow2_add j [symmetric] pow2_diff [symmetric])
       (simp add: j pow2_add)
  also have "\<dots> = of_int (m * 2 ^ j)" by (simp add: pow2_nat)
  finally have "rne (x / pow2 (e - int p + 1)) = m * 2 ^ j" by (simp only: rne_of_int)
  with fl_cert [OF b, of p] have "fl p x = of_int (m * 2 ^ j) * pow2 (e - int p + 1)" by simp
  also have "\<dots> = of_int m * (pow2 (int j) * pow2 (e - int p + 1))" by (simp add: pow2_nat)
  also have "\<dots> = of_int m * pow2 k"
    by (simp add: pow2_add [symmetric] j add.commute)
  finally show ?thesis by (simp add: assms(1))
qed

lemma fl_of_int: "\<bar>m\<bar> < 2 ^ p \<Longrightarrow> fl p (of_int m) = of_int m"
  using fl_exact [of "of_int m" m 0 p] by simp


lemma fl_pos_form:
  assumes "0 < x" and "0 < p"
  shows "\<exists>m. fl p x = of_int m * pow2 (ilog2 x - int p + 1) \<and> 2 ^ (p - 1) \<le> m \<and> m \<le> 2 ^ p \<and>
             m = rne (x / pow2 (ilog2 x - int p + 1))"
proof -
  define e where "e = ilog2 x"
  define q where "q = pow2 (e - int p + 1)"
  from ilog2_bounds [OF assms(1)] have b: "pow2 e \<le> x" "x < pow2 (e + 1)"
    by (simp_all add: e_def)
  have ax: "\<bar>x\<bar> = x" using assms(1) by simp
  from fl_cert [of e x p] b ax have f: "fl p x = of_int (rne (x / q)) * q"
    by (simp add: q_def)
  have q: "0 < q" by (simp add: q_def)
  have "pow2 e / q = pow2 (int p - 1)" by (simp add: q_def pow2_diff [symmetric])
  also have "\<dots> = of_int (2 ^ (p - 1))"
    using assms(2) pow2_nat [of "p - 1"] by (simp add: of_nat_diff)
  finally have e1: "pow2 e / q = of_int (2 ^ (p - 1))" .
  have "pow2 e / q \<le> x / q" using b(1) q by (intro divide_right_mono) simp_all
  then have "of_int (2 ^ (p - 1)) \<le> x / q" by (simp only: e1)
  then have lo: "2 ^ (p - 1) \<le> rne (x / q)" by (rule rne_lower)
  have "pow2 (e + 1) / q = pow2 (int p)" by (simp add: q_def pow2_diff [symmetric])
  also have "\<dots> = of_int (2 ^ p)" by (simp add: pow2_nat)
  finally have "x / q \<le> of_int (2 ^ p)"
    using b(2) q by (metis divide_right_mono less_imp_le)
  then have hi: "rne (x / q) \<le> 2 ^ p" by (rule rne_upper)
  from f lo hi show ?thesis by (auto simp add: q_def e_def)
qed

lemma fl_pos_bounds:
  assumes "0 < x" and "0 < p"
  shows "pow2 (ilog2 x) \<le> fl p x \<and> fl p x \<le> pow2 (ilog2 x + 1)"
proof -
  define e where "e = ilog2 x"
  from fl_pos_form [OF assms] obtain m where
    m: "fl p x = of_int m * pow2 (e - int p + 1)" "2 ^ (p - 1) \<le> m" "m \<le> 2 ^ p"
    by (auto simp add: e_def)
  have "pow2 e = pow2 (int p - 1) * pow2 (e - int p + 1)" by (simp add: pow2_add [symmetric])
  also have "pow2 (int p - 1) = of_int (2 ^ (p - 1))"
    using assms(2) pow2_nat [of "p - 1"] by (simp add: of_nat_diff)
  also have "of_int (2 ^ (p - 1)) * pow2 (e - int p + 1) \<le> of_int m * pow2 (e - int p + 1)"
    using m(2) by (simp only: of_int_le_iff mult_le_cancel_right pow2_pos) simp
  finally have lo: "pow2 e \<le> fl p x" by (simp add: m(1))
  have "of_int m * pow2 (e - int p + 1) \<le> of_int (2 ^ p) * pow2 (e - int p + 1)"
    using m(3) by (simp only: of_int_le_iff mult_le_cancel_right pow2_pos) simp
  also have "\<dots> = pow2 (e + 1)" by (simp add: pow2_add [symmetric] pow2_nat [symmetric])
  finally have hi: "fl p x \<le> pow2 (e + 1)" by (simp add: m(1))
  from lo hi show ?thesis by (simp add: e_def)
qed

lemma fl_nonneg:
  assumes "0 \<le> x" and "0 < p"
  shows "0 \<le> fl p x"
proof (cases "x = 0")
  case True
  then show ?thesis by simp
next
  case False
  with assms(1) have "0 < x" by simp
  from fl_pos_bounds [OF this assms(2)] pow2_pos [of "ilog2 x"] show ?thesis by linarith
qed

lemma fl_mono:
  assumes "0 \<le> x" and "x \<le> y" and "0 < p"
  shows "fl p x \<le> fl p y"
proof (cases "x = 0")
  case True
  with assms fl_nonneg [of y p] show ?thesis by simp
next
  case False
  with assms have x: "0 < x" and y: "0 < y" by simp_all
  from ilog2_bounds [OF x] have bx: "pow2 (ilog2 x) \<le> x" "x < pow2 (ilog2 x + 1)" by simp_all
  from ilog2_bounds [OF y] have by': "pow2 (ilog2 y) \<le> y" "y < pow2 (ilog2 y + 1)" by simp_all
  from bx(1) assms(2) by'(2) have "pow2 (ilog2 x) < pow2 (ilog2 y + 1)" by linarith
  then have le: "ilog2 x \<le> ilog2 y" using pow2_less_cancel by fastforce
  show ?thesis
  proof (cases "ilog2 x = ilog2 y")
    case True
    define q where "q = pow2 (ilog2 y - int p + 1)"
    have q: "0 < q" by (simp add: q_def)
    from fl_pos_form [OF x assms(3)] True have fx: "fl p x = of_int (rne (x / q)) * q"
      by (auto simp add: q_def)
    from fl_pos_form [OF y assms(3)] have fy: "fl p y = of_int (rne (y / q)) * q"
      by (auto simp add: q_def)
    have "x / q \<le> y / q" using assms(2) q by (simp add: divide_right_mono)
    then have "rne (x / q) \<le> rne (y / q)" by (rule rne_mono)
    then show ?thesis
      unfolding fx fy using q by (simp only: of_int_le_iff mult_le_cancel_right) simp
  next
    case False
    with le have "ilog2 x + 1 \<le> ilog2 y" by simp
    then have "pow2 (ilog2 x + 1) \<le> pow2 (ilog2 y)" by (rule pow2_mono)
    with fl_pos_bounds [OF x assms(3)] fl_pos_bounds [OF y assms(3)] show ?thesis by linarith
  qed
qed

lemma fl_idem:
  assumes "0 \<le> x" and "0 < p"
  shows "fl p (fl p x) = fl p x"
proof (cases "x = 0")
  case True
  then show ?thesis by simp
next
  case False
  with assms(1) have x: "0 < x" by simp
  from fl_pos_form [OF x assms(2)] obtain m where
    m: "fl p x = of_int m * pow2 (ilog2 x - int p + 1)" "2 ^ (p - 1) \<le> m" "m \<le> 2 ^ p"
    by auto
  show ?thesis
  proof (cases "m = 2 ^ p")
    case False
    moreover have "0 < (2::int) ^ (p - 1)" by simp
    ultimately have "\<bar>m\<bar> < 2 ^ p" using m(2,3) by linarith
    from fl_exact [OF m(1) this] show ?thesis .
  next
    case True
    obtain k where k: "p = Suc k" using assms(2) by (cases p) auto
    define a where "a = ilog2 x - int p + 1"
    have "pow2 1 = 2" by (simp add: pow2_def)
    then have A: "pow2 (a + 1) = 2 * pow2 a" by (simp add: pow2_add)
    have "fl p x = of_int (2 ^ p) * pow2 a" using m(1) True by (simp add: a_def)
    also have "\<dots> = of_int (2 ^ k) * (2 * pow2 a)" by (simp add: k)
    also have "\<dots> = of_int (2 ^ k) * pow2 (a + 1)" by (simp only: A)
    finally have "fl p x = of_int (2 ^ k) * pow2 (ilog2 x - int p + 1 + 1)"
      by (simp only: a_def)
    moreover have "\<bar>2 ^ k :: int\<bar> < 2 ^ p" by (simp add: k)
    ultimately show ?thesis by (rule fl_exact)
  qed
qed


lemma rne_near:
  assumes "of_int m - 1 / 2 < x" and "x < of_int m + 1 / 2"
  shows "rne x = m"
proof -
  have "\<lfloor>x\<rfloor> = m \<or> \<lfloor>x\<rfloor> = m - 1" using assms by linarith
  then show ?thesis
  proof
    assume "\<lfloor>x\<rfloor> = m"
    with assms show ?thesis by (simp add: rne_def Let_def)
  next
    assume f: "\<lfloor>x\<rfloor> = m - 1"
    with assms have "1 / 2 < x - of_int \<lfloor>x\<rfloor>" by simp
    with f show ?thesis by (simp add: rne_def Let_def)
  qed
qed

lemma fl_eval:
  assumes "pow2 e \<le> \<bar>x\<bar>" and "\<bar>x\<bar> < pow2 (e + 1)"
    and "of_int m - 1 / 2 < x / pow2 (e - int p + 1)"
    and "x / pow2 (e - int p + 1) < of_int m + 1 / 2"
    and "of_int m * pow2 (e - int p + 1) = r"
  shows "fl p x = r"
  using fl_cert [OF assms(1,2), of p] rne_near [OF assms(3,4)] assms(5) by simp

section \<open>Basic facts\<close>

lemma bind_r_simps [simp]: "bind_r (Inl e) f = Inl e" "bind_r (Inr x) f = f x"
  by (simp_all add: bind_r_def)

lemma py_str_JStr [simp]: "py_str lib (JStr s) = s"
  by (simp add: py_str_def)

lemma transform_empty: "current_image st = None \<Longrightarrow> transform lib st r = (st, Failure msg_no_image)"
  by (simp add: transform_def)

lemma do_transform_empty:
  assumes "current_image st = None" and "a \<in> set transform_actions"
  shows "do_transform lib st a req =
    (st, Failure (if (a = ''resize'' \<or> a = ''crop_center'') \<and> (falsy (rget req ''width'') \<or> falsy (rget req ''height''))
          then msg_missing_width_height
          else if a = ''crop'' \<and> (rget req ''right'' = JNull \<or> rget req ''bottom'' = JNull)
          then msg_missing_right_bottom else msg_no_image))"
  using assms(2) unfolding transform_actions_def
  by (auto simp add: do_transform_def transform_empty [OF assms(1)] Let_def
      do_thumbnail_def do_resize_def do_rotate_def do_crop_def do_crop_center_def do_grayscale_def
      do_art_effect_def do_white_balance_def do_brightness_def do_contrast_def do_saturation_def
      do_sharpen_def do_blur_def do_flip_def do_invert_def do_sepia_def do_edge_detect_def
      do_emboss_def do_pixelate_def do_vignette_def do_hue_shift_def do_add_border_def
      do_auto_contrast_def do_equalize_def do_color_temperature_def)
lemma copy_copy [simp]: "copy (copy img) = copy img"
  by (simp add: copy_def)

lemma copy_fields [simp]:
  "mode (copy img) = mode img" "isize (copy img) = isize img" "bands (copy img) = bands img"
  "palette (copy img) = palette img" "format (copy img) = None"
  by (simp_all add: copy_def)

lemma split_copy: "split (copy img) = split img"
  by (simp add: split_def)

lemma to_rgb_copy: "to_rgb (copy img) = to_rgb img"
  by (cases "mode img") (simp_all add: to_rgb_def split: list.splits)

lemma to_rgba_copy: "to_rgba (copy img) = to_rgba img"
  by (cases "mode img") (simp_all add: to_rgba_def split: list.splits)

lemma trunc_of_int [simp]: "trunc (of_int n) = n"
  by (simp add: trunc_def)

lemma trunc_numeral [simp]: "trunc (numeral k) = numeral k" "trunc 0 = 0" "trunc 1 = 1"
  by (simp_all add: trunc_def)

lemma clip_byte: "0 \<le> n \<Longrightarrow> n \<le> 255 \<Longrightarrow> trunc (min 255 (max 0 (rat_of_int n))) = n"
  by (simp add: min_def max_def)

lemma uint8_roundtrip:
  "(word_of_int (trunc (min 255 (max 0 (unsigned (s :: sample))))) :: sample) = s"
proof -
  have "uint s < 256" using uint_bounded [of s] by simp
  then have "trunc (min 255 (max 0 (rat_of_int (uint s)))) = uint s"
    by (intro clip_byte) simp_all
  then show ?thesis by simp
qed

lemma astype_clip_array: "astype_uint8 (np_clip (np_array_f32 img) 0 255) = bands img"
  by (simp add: astype_uint8_def np_clip_def np_array_f32_def map_planes_def o_def
      uint8_roundtrip map_idI)

lemma convert_RGB_bands:
  assumes "mode img \<noteq> Mode_YCbCr"
  shows "\<exists>rgb. convert lib img Mode_RGB = Inr rgb \<and> bands rgb = to_rgb img \<and>
           isize rgb = isize img \<and> mode rgb = Mode_RGB \<and> format rgb = None"
  using assms by (cases "mode img") (simp_all add: convert_def to_rgb_def)

lemma transform_outcome:
  "current_image st = Some cur \<Longrightarrow> transform lib st r = outcome lib st r"
  by (simp add: transform_def outcome_def respond_def split: sum.splits)

lemma to_rgb_length:
  assumes "band_ok img" and "mode img \<noteq> Mode_YCbCr"
  shows "length (to_rgb img) = 3"
  using assms by (cases "mode img") (auto simp add: band_ok_def to_rgb_def split: list.splits)

lemma fromarray_clip_array:
  assumes "length (bands rgb) = 3"
  shows "fromarray (np_clip (np_array_f32 rgb) 0 255) =
           \<lparr>mode = Mode_RGB, isize = isize rgb, format = None, bands = bands rgb, palette = []\<rparr>"
  using assms astype_clip_array [of rgb]
  by (simp add: fromarray_def np_clip_def np_array_f32_def map_planes_def)

section \<open>Requests before an image is loaded\<close>

lemma transform_action_names:
  "a \<in> set transform_actions \<Longrightarrow>
     a \<noteq> ''load_file'' \<and> a \<noteq> ''load_base64'' \<and> a \<noteq> ''save_file'' \<and> a \<noteq> ''get_base64'' \<and>
     a \<noteq> ''get_info'' \<and> a \<noteq> ''batch_load'' \<and> a \<noteq> ''reset'' \<and> a \<noteq> ''list_actions'' \<and> a \<noteq> ''ping''"
  unfolding transform_actions_def by auto

lemma reset_not_transform: "''reset'' \<notin> set transform_actions"
  unfolding transform_actions_def by simp

text \<open>
  C2, amended: before any image is loaded, every transform request and \<open>reset\<close>
  fails and leaves the session unchanged.  The error is the "no image loaded" text,
  except that \<open>resize\<close> and \<open>crop_center\<close> without a (non-zero) width or height, and
  \<open>crop\<close> without right or bottom, report the missing parameter, which the program
  checks first.
\<close>

theorem C2_empty_session:
  assumes "current_image st = None" and "original_image st = None"
    and "rget req ''action'' = JStr a"
    and "a \<in> set transform_actions \<or> a = ''reset''"
  shows "handle_request lib st req = (st, Failure (empty_error a req))"
proof (cases "a = ''reset''")
  case True
  then show ?thesis
    using assms(2,3) reset_not_transform
    by (simp add: handle_request_def do_reset_def empty_error_def image_iff)
next
  case False
  with assms(4) have a: "a \<in> set transform_actions" by simp
  from transform_action_names [OF a] do_transform_empty [OF assms(1) a, of lib req] assms(3) a False
  show ?thesis
    by (simp add: handle_request_def empty_error_def)
qed

theorem C2_empty_session_witness:
  "handle_request demo_lib init_session (Map.empty(''action'' \<mapsto> JStr ''sepia'')) =
     (init_session, Failure msg_no_image)"
proof -
  let ?req = "Map.empty(''action'' \<mapsto> JStr ''sepia'')"
  have a: "rget ?req ''action'' = JStr ''sepia''" by (simp add: rget_def)
  have b: "''sepia'' \<in> set transform_actions \<or> ''sepia'' = ''reset''"
    by (simp add: transform_actions_def)
  have c: "current_image init_session = None" "original_image init_session = None"
    by (simp_all add: init_session_def)
  from C2_empty_session [OF c a b, of demo_lib] show ?thesis
    by (simp add: empty_error_def)
qed

text \<open>
  C2, as stated, fails: a \<open>resize\<close> request without width and height, received
  before any image is loaded, is answered with the missing-parameter error, not
  with the "no image loaded" error.
\<close>

theorem C2_counterexample:
  "handle_request demo_lib init_session (Map.empty(''action'' \<mapsto> JStr ''resize'')) =
     (init_session, Failure msg_missing_width_height)
   \<and> msg_missing_width_height \<noteq> msg_no_image \<and> msg_missing_width_height \<noteq> msg_no_original"
  by (simp add: handle_request_def rget_def rget_default_def transform_actions_def do_transform_def
      do_resize_def msg_missing_width_height_def msg_no_image_def msg_no_original_def)
section \<open>Reset restores the loaded image\<close>

lemma convert_copy:
  assumes "format_blind lib"
  shows "convert lib (copy img) m = convert lib img m"
proof -
  have "lib_convert lib (copy img) m = lib_convert lib img m"
    using assms by (simp add: format_blind_def copy_def)
  then show ?thesis
    by (simp add: convert_def to_rgb_copy to_rgba_copy)
qed

lemma image_to_base64_copy:
  assumes "format_blind lib"
  shows "image_to_base64 lib (copy img) fmt q = image_to_base64 lib img fmt q"
proof -
  have paste: "\<And>d m. lib_paste lib d (copy img) m = lib_paste lib d img m"
    using assms by (simp add: format_blind_def copy_def)
  have save: "lib_save lib (copy img) = lib_save lib img"
    using assms by (simp add: format_blind_def copy_def)
  show ?thesis
  proof (cases "mode img = Mode_RGB")
    case True
    then show ?thesis by (simp add: image_to_base64_def save_image_def save)
  next
    case False
    then have "save_image lib (copy img) = save_image lib img"
      by (simp add: save_image_def convert_copy [OF assms] split_copy paste Let_def
          split: list.splits)
    then show ?thesis by (simp add: image_to_base64_def)
  qed
qed

lemma preview_of_copy:
  assumes "format_blind lib"
  shows "preview_of lib (copy img) = preview_of lib img"
proof -
  obtain w h where wh: "isize img = (w, h)" by (cases "isize img")
  show ?thesis
  proof (cases "w \<le> 1024 \<and> h \<le> 1024")
    case True
    then have "create_preview lib (copy img) = Inr (copy img)" "create_preview lib img = Inr img"
      by (simp_all add: create_preview_def wh)
    then show ?thesis
      by (simp add: preview_of_def image_to_base64_copy [OF assms])
  next
    case False
    then have "create_preview lib (copy img) = create_preview lib img"
      by (auto simp add: create_preview_def wh)
    then show ?thesis by (simp add: preview_of_def)
  qed
qed

lemma respond_fst [simp]: "fst (respond lib st img) = st"
  by (simp add: respond_def split: sum.splits)

lemma original_transform [simp]:
  "original_image (fst (transform lib st r)) = original_image st"
  by (simp add: transform_def split: sum.splits)

lemma original_do_transform:
  "original_image (fst (do_transform lib st a req)) = original_image st"
  by (simp add: do_transform_def Let_def
      do_thumbnail_def do_resize_def do_rotate_def do_crop_def do_crop_center_def do_grayscale_def
      do_art_effect_def do_white_balance_def do_brightness_def do_contrast_def do_saturation_def
      do_sharpen_def do_blur_def do_flip_def do_invert_def do_sepia_def do_edge_detect_def
      do_emboss_def do_pixelate_def do_vignette_def do_hue_shift_def do_add_border_def
      do_auto_contrast_def do_equalize_def do_color_temperature_def)

lemma original_handle_request:
  assumes "\<not> is_load req"
  shows "original_image (fst (handle_request lib st req)) = original_image st"
  using assms
  by (simp add: handle_request_def is_load_def Let_def original_do_transform
      do_save_file_def do_get_base64_def do_get_info_def do_batch_load_def do_reset_def
      split: option.splits sum.splits)

lemma original_run:
  "list_all (\<lambda>r. \<not> is_load r) reqs \<Longrightarrow>
     original_image (fst (run lib st reqs)) = original_image st"
proof (induction reqs arbitrary: st)
  case Nil
  then show ?case by simp
next
  case (Cons r reqs)
  obtain st1 resp where h: "handle_request lib st r = (st1, resp)"
    by (cases "handle_request lib st r")
  with Cons.prems original_handle_request [of r lib st]
  have "original_image st1 = original_image st" by simp
  with Cons.IH [of st1] Cons.prems h show ?case
    by (auto split: prod.splits)
qed

lemma do_load_Changed:
  assumes "do_load lib st r = (st1, Changed i pv)"
  shows "\<exists>img. st1 = \<lparr>current_image = Some img, original_image = Some (copy img),
                       picture_image = Some img\<rparr> \<and> preview_of lib img = Inr pv"
  using assms by (auto simp add: do_load_def respond_def split: sum.splits)

lemma load_Changed:
  assumes "is_load req" and "handle_request lib st req = (st1, Changed i pv)"
  shows "\<exists>img. st1 = \<lparr>current_image = Some img, original_image = Some (copy img),
                       picture_image = Some img\<rparr> \<and> preview_of lib img = Inr pv"
proof -
  from assms have "\<exists>r. do_load lib st r = (st1, Changed i pv)"
    by (auto simp add: handle_request_def is_load_def do_load_file_def do_load_base64_def Let_def
        split: if_splits)
  then show ?thesis using do_load_Changed by blast
qed

lemma reset_after_load:
  assumes "format_blind lib" and "original_image st = Some (copy img)"
    and "preview_of lib img = Inr pv" and "rget req ''action'' = JStr ''reset''"
  shows "handle_request lib st req =
           (st\<lparr>current_image := Some (copy img), picture_image := Some (copy img)\<rparr>,
            Changed (get_image_info (copy img)) pv)"
  using assms(2-4) preview_of_copy [OF assms(1), of img]
  by (simp add: handle_request_def do_reset_def respond_def transform_actions_def image_iff)

text \<open>
  C1: after a successful load, whatever requests other than loads follow (any
  transforms, successful or not), \<open>reset\<close> succeeds, answers with the preview that
  the load produced, and leaves as current image a copy of the backup made at load
  time, which is pixel-identical to the loaded image: same dimensions, mode and
  samples.  The backup itself is never changed by a transform.
\<close>

theorem C1_reset_restores:
  assumes "format_blind lib" and "is_load lreq"
    and "handle_request lib st0 lreq = (st1, Changed i pv)"
    and "list_all (\<lambda>r. \<not> is_load r) reqs"
    and "run lib st1 reqs = (st2, resps)"
    and "rget rreq ''action'' = JStr ''reset''"
  shows "\<exists>img. current_image st1 = Some img \<and> original_image st1 = Some (copy img) \<and>
           original_image st2 = Some (copy img) \<and>
           handle_request lib st2 rreq =
             (st2\<lparr>current_image := Some (copy img), picture_image := Some (copy img)\<rparr>,
              Changed (get_image_info (copy img)) pv) \<and>
           pixel_identical (copy img) img"
proof -
  from load_Changed [OF assms(2,3)] obtain img where
    st1: "st1 = \<lparr>current_image = Some img, original_image = Some (copy img),
                 picture_image = Some img\<rparr>" and pv: "preview_of lib img = Inr pv"
    by blast
  from original_run [OF assms(4), of lib st1] assms(5) st1
  have o2: "original_image st2 = Some (copy img)" by simp
  from reset_after_load [OF assms(1) o2 pv assms(6)] st1 o2 show ?thesis
    by (auto simp add: pixel_identical_def)
qed

lemma format_blind_demo: "format_blind demo_lib"
  by (simp add: format_blind_def demo_lib_def)

theorem C1_reset_restores_witness:
  "handle_request demo_lib
     (fst (run demo_lib
        (fst (handle_request demo_lib init_session
           (Map.empty(''action'' \<mapsto> JStr ''load_file'', ''file_path'' \<mapsto> JStr ''a.png''))))
        [Map.empty(''action'' \<mapsto> JStr ''invert'')]))
     (Map.empty(''action'' \<mapsto> JStr ''reset''))
   = (\<lparr>current_image = Some (copy demo_image), original_image = Some (copy demo_image),
       picture_image = Some (copy demo_image)\<rparr>,
      Changed (get_image_info (copy demo_image)) ''JPEG'')"
proof -
  let ?lreq = "Map.empty(''action'' \<mapsto> JStr ''load_file'', ''file_path'' \<mapsto> JStr ''a.png'')"
  let ?freq = "Map.empty(''action'' \<mapsto> JStr ''invert'')"
  let ?rreq = "Map.empty(''action'' \<mapsto> JStr ''reset'')"
  let ?st1 = "\<lparr>current_image = Some demo_image, original_image = Some (copy demo_image),
               picture_image = Some demo_image\<rparr>"
  have ld: "is_load ?lreq" by (simp add: is_load_def rget_def)
  have pv: "preview_of demo_lib demo_image = Inr ''JPEG''"
    by (simp add: preview_of_def create_preview_def image_to_base64_def save_image_def
        demo_lib_def demo_image_def)
  have h: "handle_request demo_lib init_session ?lreq =
             (?st1, Changed (get_image_info demo_image) ''JPEG'')"
    using pv by (simp add: handle_request_def rget_def do_load_file_def do_load_def respond_def
        load_file_def demo_lib_def)
  have la: "list_all (\<lambda>r. \<not> is_load r) [?freq]" by (simp add: is_load_def rget_def)
  obtain st2 resps where r: "run demo_lib ?st1 [?freq] = (st2, resps)"
    by (cases "run demo_lib ?st1 [?freq]")
  have rr: "rget ?rreq ''action'' = JStr ''reset''" by (simp add: rget_def)
  from C1_reset_restores [OF format_blind_demo ld h la r rr]
  have "original_image st2 = Some (copy demo_image)"
    and "handle_request demo_lib st2 ?rreq =
          (st2\<lparr>current_image := Some (copy demo_image), picture_image := Some (copy demo_image)\<rparr>,
           Changed (get_image_info (copy demo_image)) ''JPEG'')"
    by auto
  moreover have "fst (run demo_lib (fst (handle_request demo_lib init_session ?lreq)) [?freq]) = st2"
    using h r by simp
  ultimately show ?thesis by (simp add: session.equality)
qed
section \<open>The encoding of previews and of \<open>get_base64\<close>\<close>

lemma split_last:
  assumes "nbands (mode img) \<noteq> 1" and "bands img \<noteq> []"
  shows "split img \<noteq> []" and "last (split img) = band_image (isize img) (alpha_band img)"
  using assms by (simp_all add: split_def alpha_band_def last_map)

lemma save_image_RGB: "mode img = Mode_RGB \<Longrightarrow> save_image lib img = Inr img"
  by (simp add: save_image_def)

lemma save_image_other:
  "mode img = Mode_L \<or> mode img = Mode_YCbCr \<Longrightarrow> save_image lib img = convert lib img Mode_RGB"
  by (auto simp add: save_image_def)

lemma save_image_L:
  assumes "mode img = Mode_L" and "bands img \<noteq> []"
  shows "save_image lib img = Inr (rgb_of_luminance img)"
  using assms
  by (cases "bands img") (simp_all add: save_image_def convert_def to_rgb_def rgb_of_luminance_def)

lemma save_image_alpha:
  assumes "mode img = Mode_RGBA \<or> mode img = Mode_LA" and "bands img \<noteq> []"
  shows "save_image lib img = paste_on_white lib img"
proof -
  from assms(1) have n: "nbands (mode img) \<noteq> 1" by auto
  from split_last [OF n assms(2)] assms(1) show ?thesis
    by (auto simp add: save_image_def paste_on_white_def Let_def split: list.splits)
qed

lemma save_image_P:
  assumes "mode img = Mode_P" and "bands img \<noteq> []"
  shows "save_image lib img = paste_on_white lib (rgba_of_palette img)"
proof -
  have c: "convert lib img Mode_RGBA = Inr (rgba_of_palette img)"
    using assms(1) by (simp add: convert_def rgba_of_palette_def)
  have m: "mode (rgba_of_palette img) = Mode_RGBA" "isize (rgba_of_palette img) = isize img"
    by (simp_all add: rgba_of_palette_def)
  from assms have "bands (rgba_of_palette img) \<noteq> []"
    by (cases "bands img") (simp_all add: rgba_of_palette_def to_rgba_def)
  from save_image_alpha [OF _ this, of lib] m
  have "save_image lib (rgba_of_palette img) = paste_on_white lib (rgba_of_palette img)" by simp
  moreover have "save_image lib img =
      bind_r (convert lib img Mode_RGBA) (\<lambda>i. save_image lib i)"
    using assms(1) c m by (simp add: save_image_def Let_def paste_on_white_def)
  ultimately show ?thesis using c by simp
qed

lemma get_base64_request:
  assumes "current_image st = Some img" and "rget req ''action'' = JStr ''get_base64''"
  shows "handle_request lib st req =
           (st, case bind_r (lib_load lib img) (\<lambda>u.
                     bind_r (save_image lib img) (\<lambda>s. lib_save lib s ''JPEG'' 75)) of
                  Inl e \<Rightarrow> Failure (str_error e)
                | Inr buffer \<Rightarrow> Encoded (lib_b64encode lib buffer) (get_image_info img))"
  using assms
  by (simp add: handle_request_def do_get_base64_def image_to_base64_def bind_r_def
      split: sum.splits)

lemma preview_of_jpeg:
  "preview_of lib img =
     bind_r (create_preview lib img) (\<lambda>p.
     bind_r (save_image lib p) (\<lambda>s.
     bind_r (lib_save lib s ''JPEG'' 75) (\<lambda>buffer. Inr (lib_b64encode lib buffer))))"
  by (simp add: preview_of_def image_to_base64_def)

text \<open>
  C10: whatever is passed as \<open>format\<close> to \<open>get_base64\<close>, the request leaves the session
  as it is and its payload is the base64 text of the library's JPEG encoding, at
  quality 75, of the image derived from the current image as follows: an RGB image
  is encoded as it is; an image with an alpha band is first pasted through that
  band onto an opaque white background of its size; an indexed image is first
  converted to RGBA through its palette and then pasted in the same way; every
  other mode is converted to RGB (luminance by replicating its band).  The request
  fails with the library's error text when the decoding of the current image, the
  pasting, the conversion or the encoder raises.  The preview of every other
  response is the same encoding of the preview image.
\<close>

theorem C10_base64_always_jpeg:
  assumes "current_image st = Some img" and "rget req ''action'' = JStr ''get_base64''"
  shows "handle_request lib st req =
           (st, case bind_r (lib_load lib img) (\<lambda>u.
                     bind_r (save_image lib img) (\<lambda>s. lib_save lib s ''JPEG'' 75)) of
                  Inl e \<Rightarrow> Failure (str_error e)
                | Inr buffer \<Rightarrow> Encoded (lib_b64encode lib buffer) (get_image_info img))
       \<and> (mode img = Mode_RGB \<longrightarrow> save_image lib img = Inr img)
       \<and> ((mode img = Mode_RGBA \<or> mode img = Mode_LA) \<and> bands img \<noteq> [] \<longrightarrow>
             save_image lib img = paste_on_white lib img)
       \<and> (mode img = Mode_P \<and> bands img \<noteq> [] \<longrightarrow>
             save_image lib img = paste_on_white lib (rgba_of_palette img))
       \<and> (mode img = Mode_L \<and> bands img \<noteq> [] \<longrightarrow>
             save_image lib img = Inr (rgb_of_luminance img))
       \<and> (mode img = Mode_YCbCr \<longrightarrow> save_image lib img = lib_convert lib img Mode_RGB)
       \<and> preview_of lib img =
           bind_r (create_preview lib img) (\<lambda>p.
           bind_r (save_image lib p) (\<lambda>s.
           bind_r (lib_save lib s ''JPEG'' 75) (\<lambda>buffer. Inr (lib_b64encode lib buffer))))"
proof -
  have y: "mode img = Mode_YCbCr \<longrightarrow> save_image lib img = lib_convert lib img Mode_RGB"
    by (simp add: save_image_def convert_def)
  from get_base64_request [OF assms] save_image_RGB [of img lib] save_image_alpha [of img lib]
    save_image_P [of img lib] save_image_L [of img lib] y preview_of_jpeg [of lib img]
  show ?thesis by blast
qed

theorem C10_base64_always_jpeg_witness:
  "handle_request demo_lib
     \<lparr>current_image = Some demo_image, original_image = Some (copy demo_image),
      picture_image = Some demo_image\<rparr>
     (Map.empty(''action'' \<mapsto> JStr ''get_base64'', ''format'' \<mapsto> JStr ''GIF''))
   = (\<lparr>current_image = Some demo_image, original_image = Some (copy demo_image),
       picture_image = Some demo_image\<rparr>, Encoded ''JPEG'' (get_image_info demo_image))"
proof -
  let ?st = "\<lparr>current_image = Some demo_image, original_image = Some (copy demo_image),
              picture_image = Some demo_image\<rparr>"
  let ?req = "Map.empty(''action'' \<mapsto> JStr ''get_base64'', ''format'' \<mapsto> JStr ''GIF'')"
  have c: "current_image ?st = Some demo_image" by simp
  have a: "rget ?req ''action'' = JStr ''get_base64''" by (simp add: rget_def)
  have m: "mode demo_image = Mode_RGB" by (simp add: demo_image_def)
  from C10_base64_always_jpeg [OF c a, of demo_lib] m
  have "handle_request demo_lib ?st ?req =
          (?st, case bind_r (lib_load demo_lib demo_image) (\<lambda>u.
                     bind_r (Inr demo_image) (\<lambda>s. lib_save demo_lib s ''JPEG'' 75)) of
                  Inl e \<Rightarrow> Failure (str_error e)
                | Inr buffer \<Rightarrow> Encoded (lib_b64encode demo_lib buffer) (get_image_info demo_image))"
    by simp
  then show ?thesis by (simp add: demo_lib_def)
qed
section \<open>Unknown names of effects, methods and directions\<close>

lemma white_balance_unknown:
  assumes "w \<noteq> JStr ''auto''" and "w \<noteq> JStr ''gray_world''" and "mode img \<noteq> Mode_YCbCr"
    and "band_ok img"
  shows "white_balance lib (Some img) w = Inr (rgb_conversion img)"
proof -
  from convert_RGB_bands [OF assms(3), of lib] obtain rgb where
    rgb: "convert lib img Mode_RGB = Inr rgb" "bands rgb = to_rgb img" "isize rgb = isize img"
    by blast
  from to_rgb_length [OF assms(4,3)] rgb(2) have "length (bands rgb) = 3" by simp
  from fromarray_clip_array [OF this] rgb(2,3)
  have "fromarray (np_clip (np_array_f32 rgb) 0 255) = rgb_conversion img"
    by (simp add: rgb_conversion_def)
  then show ?thesis
    using assms(1,2) rgb(1) by (simp add: white_balance_def ensure_image_def Let_def)
qed

lemma unknown_effect_request:
  assumes "current_image st = Some img" and "picture_image st = Some img"
    and "rget req ''action'' = JStr ''art_effect''" and "req ''effect_type'' = Some (JStr e)"
    and "e \<notin> {''poster'', ''sketch'', ''oil_paint'', ''cartoon''}"
  shows "handle_request lib st req = (st, Failure (msg_unknown_effect @ e))"
  using assms
  by (simp add: handle_request_def transform_actions_def do_transform_def do_art_effect_def
      rget_default_def transform_def art_effect_def ensure_image_def)

lemma unknown_direction_request:
  assumes "current_image st = Some img" and "picture_image st = Some img"
    and "rget req ''action'' = JStr ''flip''" and "req ''direction'' = Some (JStr d)"
    and "d \<notin> {''horizontal'', ''vertical''}"
  shows "handle_request lib st req = (st, Failure (msg_unknown_direction @ d))"
  using assms
  by (simp add: handle_request_def transform_actions_def do_transform_def do_flip_def
      rget_default_def transform_def flip_def ensure_image_def)

lemma unknown_edge_request:
  assumes "current_image st = Some img" and "picture_image st = Some img"
    and "rget req ''action'' = JStr ''edge_detect''" and "req ''method'' = Some (JStr m)"
    and "m \<notin> {''default'', ''enhance'', ''contour''}"
  shows "handle_request lib st req = outcome lib st (lib_filter lib img FIND_EDGES)"
  using assms transform_outcome [OF assms(1)]
  by (simp add: handle_request_def transform_actions_def do_transform_def do_edge_detect_def
      rget_default_def edge_detect_def ensure_image_def)

lemma unknown_blur_request:
  assumes "current_image st = Some img" and "picture_image st = Some img"
    and "rget req ''action'' = JStr ''blur''" and "req ''blur_type'' = Some (JStr t)"
    and "t \<notin> {''gaussian'', ''box'', ''motion''}"
  shows "handle_request lib st req = outcome lib st (lib_filter lib img BLUR)"
  using assms transform_outcome [OF assms(1)]
  by (simp add: handle_request_def transform_actions_def do_transform_def do_blur_def
      rget_default_def blur_def ensure_image_def Let_def)

lemma unknown_balance_request:
  assumes "current_image st = Some img" and "picture_image st = Some img"
    and "rget req ''action'' = JStr ''white_balance''" and "req ''method'' = Some (JStr w)"
    and "w \<notin> {''auto'', ''gray_world''}" and "mode img \<noteq> Mode_YCbCr" and "band_ok img"
  shows "handle_request lib st req = outcome lib st (Inr (rgb_conversion img))"
proof -
  from assms(5) have "JStr w \<noteq> JStr ''auto''" "JStr w \<noteq> JStr ''gray_world''" by simp_all
  from white_balance_unknown [OF this assms(6,7), of lib] assms(1-4) transform_outcome [OF assms(1)]
  show ?thesis
    by (simp add: handle_request_def transform_actions_def do_transform_def do_white_balance_def
        rget_default_def)
qed

text \<open>
  C5, amended: with an image loaded, a request whose \<open>effect_type\<close> (\<open>art_effect\<close>) or
  \<open>direction\<close> (\<open>flip\<close>) is a string outside the catalogue fails with an error text
  that ends with the offending value, and the session is unchanged.  The other
  three names are not checked.  An \<open>edge_detect\<close> request with an unknown \<open>method\<close> is
  answered as the method \<open>default\<close> is: the library's FIND_EDGES filter is applied.
  A \<open>blur\<close> request with an unknown \<open>blur_type\<close> applies the library's plain BLUR
  filter.  In both cases the request fails, with the session unchanged, only if the
  library's filter raises; an image that the filter returns replaces the current
  image.  A \<open>white_balance\<close> request with an unknown \<open>method\<close>, on an image that is not
  in luma/chroma mode, never fails in the method: the RGB conversion of the image,
  with its samples unadjusted, replaces the current image.  A returned image
  is reported with its preview, or with the error of the encoder when the preview
  cannot be built.
\<close>

theorem C5_unknown_names:
  assumes "current_image st = Some img" and "picture_image st = Some img"
  shows "(rget req ''action'' = JStr ''art_effect'' \<and> req ''effect_type'' = Some (JStr e) \<and>
          e \<notin> {''poster'', ''sketch'', ''oil_paint'', ''cartoon''} \<longrightarrow>
            handle_request lib st req = (st, Failure (msg_unknown_effect @ e)))
       \<and> (rget req ''action'' = JStr ''flip'' \<and> req ''direction'' = Some (JStr d) \<and>
          d \<notin> {''horizontal'', ''vertical''} \<longrightarrow>
            handle_request lib st req = (st, Failure (msg_unknown_direction @ d)))
       \<and> (rget req ''action'' = JStr ''edge_detect'' \<and> req ''method'' = Some (JStr m) \<and>
          m \<notin> {''default'', ''enhance'', ''contour''} \<longrightarrow>
            handle_request lib st req = outcome lib st (lib_filter lib img FIND_EDGES))
       \<and> (rget req ''action'' = JStr ''blur'' \<and> req ''blur_type'' = Some (JStr t) \<and>
          t \<notin> {''gaussian'', ''box'', ''motion''} \<longrightarrow>
            handle_request lib st req = outcome lib st (lib_filter lib img BLUR))
       \<and> (rget req ''action'' = JStr ''white_balance'' \<and> req ''method'' = Some (JStr w) \<and>
          w \<notin> {''auto'', ''gray_world''} \<and> mode img \<noteq> Mode_YCbCr \<and> band_ok img \<longrightarrow>
            handle_request lib st req = outcome lib st (Inr (rgb_conversion img)))"
proof (intro conjI impI; elim conjE)
  show "handle_request lib st req = (st, Failure (msg_unknown_effect @ e))"
    if "rget req ''action'' = JStr ''art_effect''" "req ''effect_type'' = Some (JStr e)"
      "e \<notin> {''poster'', ''sketch'', ''oil_paint'', ''cartoon''}"
    using unknown_effect_request [OF assms that] .
  show "handle_request lib st req = (st, Failure (msg_unknown_direction @ d))"
    if "rget req ''action'' = JStr ''flip''" "req ''direction'' = Some (JStr d)"
      "d \<notin> {''horizontal'', ''vertical''}"
    using unknown_direction_request [OF assms that] .
  show "handle_request lib st req = outcome lib st (lib_filter lib img FIND_EDGES)"
    if "rget req ''action'' = JStr ''edge_detect''" "req ''method'' = Some (JStr m)"
      "m \<notin> {''default'', ''enhance'', ''contour''}"
    using unknown_edge_request [OF assms that] .
  show "handle_request lib st req = outcome lib st (lib_filter lib img BLUR)"
    if "rget req ''action'' = JStr ''blur''" "req ''blur_type'' = Some (JStr t)"
      "t \<notin> {''gaussian'', ''box'', ''motion''}"
    using unknown_blur_request [OF assms that] .
  show "handle_request lib st req = outcome lib st (Inr (rgb_conversion img))"
    if "rget req ''action'' = JStr ''white_balance''" "req ''method'' = Some (JStr w)"
      "w \<notin> {''auto'', ''gray_world''}" "mode img \<noteq> Mode_YCbCr" "band_ok img"
    using unknown_balance_request [OF assms that] .
qed

theorem C5_unknown_names_witness:
  "handle_request demo_lib
     \<lparr>current_image = Some demo_image, original_image = Some (copy demo_image),
      picture_image = Some demo_image\<rparr>
     (Map.empty(''action'' \<mapsto> JStr ''flip'', ''direction'' \<mapsto> JStr ''diagonal''))
   = (\<lparr>current_image = Some demo_image, original_image = Some (copy demo_image),
       picture_image = Some demo_image\<rparr>, Failure (msg_unknown_direction @ ''diagonal''))
   \<and> handle_request demo_lib
     \<lparr>current_image = Some demo_image, original_image = Some (copy demo_image),
      picture_image = Some demo_image\<rparr>
     (Map.empty(''action'' \<mapsto> JStr ''edge_detect'', ''method'' \<mapsto> JStr ''sobel''))
   = (\<lparr>current_image = Some demo_image, original_image = Some (copy demo_image),
       picture_image = Some demo_image\<rparr>, Changed (get_image_info demo_image) ''JPEG'')"
proof -
  let ?st = "\<lparr>current_image = Some demo_image, original_image = Some (copy demo_image),
              picture_image = Some demo_image\<rparr>"
  let ?req = "Map.empty(''action'' \<mapsto> JStr ''flip'', ''direction'' \<mapsto> JStr ''diagonal'')"
  let ?req2 = "Map.empty(''action'' \<mapsto> JStr ''edge_detect'', ''method'' \<mapsto> JStr ''sobel'')"
  have st: "current_image ?st = Some demo_image" "picture_image ?st = Some demo_image"
    by simp_all
  have req: "rget ?req ''action'' = JStr ''flip'' \<and> ?req ''direction'' = Some (JStr ''diagonal'') \<and>
             ''diagonal'' \<notin> {''horizontal'', ''vertical''}"
    by (simp add: rget_def)
  have req2: "rget ?req2 ''action'' = JStr ''edge_detect'' \<and> ?req2 ''method'' = Some (JStr ''sobel'') \<and>
             ''sobel'' \<notin> {''default'', ''enhance'', ''contour''}"
    by (simp add: rget_def)
  have pv: "preview_of demo_lib demo_image = Inr ''JPEG''"
    by (simp add: preview_of_def create_preview_def image_to_base64_def save_image_def
        demo_lib_def demo_image_def)
  have f: "lib_filter demo_lib demo_image FIND_EDGES = Inr demo_image"
    by (simp add: demo_lib_def)
  have a: "handle_request demo_lib ?st ?req = (?st, Failure (msg_unknown_direction @ ''diagonal''))"
    using C5_unknown_names [OF st, where req = ?req and d = "''diagonal''" and lib = demo_lib,
        THEN conjunct2, THEN conjunct1, THEN mp, OF req] .
  have "handle_request demo_lib ?st ?req2 =
          outcome demo_lib ?st (lib_filter demo_lib demo_image FIND_EDGES)"
    using C5_unknown_names [OF st, where req = ?req2 and m = "''sobel''" and lib = demo_lib,
        THEN conjunct2, THEN conjunct2, THEN conjunct1, THEN mp, OF req2] .
  with f pv have b: "handle_request demo_lib ?st ?req2 =
          (?st, Changed (get_image_info demo_image) ''JPEG'')"
    by (simp add: outcome_def)
  from a b show ?thesis by simp
qed

text \<open>
  C5, as stated, fails: a \<open>white_balance\<close> request with the unknown method
  \<open>sunny\<close> succeeds and replaces the current image.
\<close>

theorem C5_counterexample:
  "handle_request demo_lib
     \<lparr>current_image = Some demo_image, original_image = Some (copy demo_image),
      picture_image = Some demo_image\<rparr>
     (Map.empty(''action'' \<mapsto> JStr ''white_balance'', ''method'' \<mapsto> JStr ''sunny''))
   = (\<lparr>current_image = Some (copy demo_image), original_image = Some (copy demo_image),
       picture_image = Some (copy demo_image)\<rparr>,
      Changed (get_image_info (copy demo_image)) ''JPEG'')"
  by (simp add: handle_request_def transform_actions_def do_transform_def do_white_balance_def
      rget_def rget_default_def transform_def white_balance_def ensure_image_def convert_def
      Let_def fromarray_def np_clip_def np_array_f32_def map_planes_def astype_uint8_def
      respond_def preview_of_def create_preview_def image_to_base64_def save_image_def
      demo_lib_def demo_image_def copy_def get_image_info_def min_def max_def)
section \<open>Crop and centre crop\<close>














section \<open>Resize\<close>

lemma pow2_numeral_exact: "0 < p \<Longrightarrow> fl p (2 ^ n) = 2 ^ n"
  using fl_exact [of "2 ^ n" 1 "int n" p] by (simp add: pow2_nat)

lemma fl_bounded:
  assumes "0 \<le> x" and "x \<le> 2 ^ n" and "0 < p"
  shows "0 \<le> fl p x" and "fl p x \<le> 2 ^ n"
  using fl_nonneg [OF assms(1,3)] fl_mono [OF assms(1,2,3)]
  by (simp_all only: pow2_numeral_exact [OF assms(3)])

lemma not_overflows:
  assumes "0 \<le> x" and "x \<le> 2 ^ n" and "n < 1024"
  shows "\<not> overflows (fl64 x)"
proof -
  from fl_bounded [OF assms(1,2), of 53] have b: "0 \<le> fl64 x" "fl64 x \<le> 2 ^ n" by simp_all
  have "(2 :: rat) ^ n < 2 ^ 1024" using assms(3) by (intro power_strict_increasing) simp_all
  with b show ?thesis by (simp add: overflows_def)
qed

lemma float_of_small_int:
  assumes "0 \<le> n" and "n < 2 ^ 31"
  shows "float_of_int n = Inr (of_int n)"
proof -
  from assms have "\<bar>n\<bar> < 2 ^ 53" by simp
  from fl_of_int [OF this] have e: "fl64 (of_int n) = of_int n" .
  have "(of_int n :: rat) < of_int (2 ^ 31)" using assms(2) by (simp only: of_int_less_iff)
  then have "\<not> overflows (of_int n)" using assms(1) by (simp add: overflows_def)
  with e show ?thesis by (simp add: float_of_int_def)
qed

lemma truediv_bounded:
  assumes "0 < W" and "0 < t" and "t \<le> 2 ^ 900"
  shows "py_truediv (JInt t) (JInt W) = Inr (fl64 (of_int t / of_int W))"
    and "0 \<le> fl64 (of_int t / of_int W)" and "fl64 (of_int t / of_int W) \<le> 2 ^ 900"
proof -
  have w: "(1 :: rat) \<le> of_int W" using assms(1) by simp
  have t: "(0 :: rat) < of_int t" "(of_int t :: rat) \<le> 2 ^ 900"
    using assms(2) apply simp
    using assms(3) of_int_le_iff [of t "2 ^ 900", where ?'a = rat] by simp
  have "(of_int t :: rat) / of_int W \<le> of_int t / 1"
    using w t(1) by (intro divide_left_mono) simp_all
  with t(2) have q: "(0 :: rat) \<le> of_int t / of_int W" "(of_int t :: rat) / of_int W \<le> 2 ^ 900"
    using assms(1) t(1) by simp_all
  from fl_bounded [OF q, of 53] show "0 \<le> fl64 (of_int t / of_int W)"
    and "fl64 (of_int t / of_int W) \<le> 2 ^ 900" by simp_all
  from not_overflows [OF q] assms(1) show "py_truediv (JInt t) (JInt W) = Inr (fl64 (of_int t / of_int W))"
    by (simp add: py_truediv_def Let_def)
qed

lemma scaled_int_bounded:
  assumes "0 < W" and "W < 2 ^ 31" and "0 \<le> s" and "s \<le> 2 ^ 900"
  shows "scaled_int W s = Inr (trunc (fl64 (of_int W * s)))"
proof -
  have w: "(0 :: rat) \<le> of_int W" "(of_int W :: rat) \<le> 2 ^ 31"
    using assms(1) apply simp
    using assms(2) of_int_le_iff [of W "2 ^ 31", where ?'a = rat] by simp
  have "of_int W * s \<le> 2 ^ 31 * 2 ^ 900" using w assms(3,4) by (intro mult_mono) simp_all
  then have "of_int W * s \<le> 2 ^ 931" by simp
  moreover have "0 \<le> of_int W * s" using w(1) assms(3) by simp
  ultimately have "\<not> overflows (fl64 (of_int W * s))" by (intro not_overflows [of _ 931]) simp_all
  with float_of_small_int [of W] assms(1,2) show ?thesis
    by (simp add: scaled_int_def int_of_float_def)
qed

lemma keep_aspect_bounded:
  assumes "0 < W" and "W < 2 ^ 31" and "0 < H" and "H < 2 ^ 31"
    and "0 < tw" and "tw \<le> 2 ^ 900" and "0 < th" and "th \<le> 2 ^ 900"
  shows "keep_aspect_size (W, H) (JInt tw, JInt th) = Inr (aspect_size (W, H) (tw, th))"
proof -
  let ?s = "min (fl64 (of_int tw / of_int W)) (fl64 (of_int th / of_int H))"
  note a = truediv_bounded [OF assms(1,5,6)]
  note b = truediv_bounded [OF assms(3,7,8)]
  from a(2,3) b(2,3) have s: "0 \<le> ?s" "?s \<le> 2 ^ 900" by (simp_all add: min_def)
  from scaled_int_bounded [OF assms(1,2) s] scaled_int_bounded [OF assms(3,4) s] a(1) b(1)
  show ?thesis by (simp add: keep_aspect_size_def aspect_size_def Let_def)
qed

lemma keep_aspect_overflow:
  assumes "0 < W" and "W < 2 ^ 31" and "2 ^ 1055 \<le> tw"
  shows "keep_aspect_size (W, H) (JInt tw, JInt th) =
           Inl (OverflowError ''integer division result too large for a float'')"
proof -
  have w: "(0 :: rat) < of_int W" "(of_int W :: rat) \<le> 2 ^ 31"
    using assms(1) apply simp
    using assms(2) of_int_le_iff [of W "2 ^ 31", where ?'a = rat] by simp
  have t: "(2 :: rat) ^ 1055 \<le> of_int tw"
    using assms(3) of_int_le_iff [of "2 ^ 1055" tw, where ?'a = rat] by simp
  then have t0: "(0 :: rat) \<le> of_int tw" by (rule order_trans [rotated]) simp
  have "(2 :: rat) ^ 1024 = 2 ^ 1055 / 2 ^ 31" by simp
  also have "\<dots> \<le> of_int tw / 2 ^ 31" using t by (intro divide_right_mono) simp_all
  also have "\<dots> \<le> of_int tw / of_int W"
    using w t0 by (intro divide_left_mono) simp_all
  finally have q: "(2 :: rat) ^ 1024 \<le> of_int tw / of_int W" .
  have "fl64 (2 ^ 1024) \<le> fl64 (of_int tw / of_int W)"
    by (rule fl_mono [OF _ q]) simp_all
  moreover have "fl64 (2 ^ 1024) = 2 ^ 1024" by (rule pow2_numeral_exact) simp
  ultimately have "2 ^ 1024 \<le> fl64 (of_int tw / of_int W)" by (simp only:)
  moreover have "0 \<le> fl64 (of_int tw / of_int W)"
    using w t0 by (intro fl_nonneg) simp_all
  ultimately have "overflows (fl64 (of_int tw / of_int W))" by (simp add: overflows_def)
  with assms(1) show ?thesis
    by (simp add: keep_aspect_size_def py_truediv_def Let_def)
qed

lemma resize_aspect_outcome:
  assumes "current_image st = Some img" and "picture_image st = Some img"
    and "resize_aspect_request req tw th" and "tw \<noteq> 0" and "th \<noteq> 0"
  shows "handle_request lib st req =
           outcome lib st
             (bind_r (keep_aspect_size (isize img) (JInt tw, JInt th)) (\<lambda>sz.
                lib_resize lib img (JInt (fst sz), JInt (snd sz)) LANCZOS))"
  using assms transform_outcome [OF assms(1)]
  by (simp add: handle_request_def transform_actions_def do_transform_def do_resize_def
      resize_aspect_request_def resize_def ensure_image_def Let_def)

text \<open>
  C6, as stated, fails: a 4 by 5 source with target (3, 100) has scale 0.75; the
  code truncates 3.75 to 3, the specification rounds it to 4.
\<close>

theorem C6_counterexample:
  "keep_aspect_size (4, 5) (JInt 3, JInt 100) = Inr (3, 3) \<and>
   spec_keep_aspect_size (4, 5) (3, 100) = (3, 4)"
proof -
  have "keep_aspect_size (4, 5) (JInt 3, JInt 100) = Inr (aspect_size (4, 5) (3, 100))"
    by (rule keep_aspect_bounded) simp_all
  moreover have "aspect_size (4, 5) (3, 100) = (3, 3)" by code_simp
  moreover have "spec_keep_aspect_size (4, 5) (3, 100) = (3, 4)" by code_simp
  ultimately show ?thesis by simp
qed

text \<open>
  C6, amended: with \<open>keep_aspect\<close> and an integer target (tw, th), the arithmetic is
  that of binary64 floating point, not of exact fractions.  Each ratio tw / W and
  th / H is the double nearest to the quotient; the scale is the smaller ratio;
  each requested dimension is the double nearest to the product of the source
  dimension and the scale, truncated toward zero by \<open>int()\<close> (not rounded to
  nearest, and with no lower bound of 1).  For a source smaller than \<open>2 ^ 31\<close> in
  both dimensions and positive targets up to \<open>2 ^ 900\<close>, the resampler is asked for
  exactly that size, and the image it returns replaces the current image; a target
  width of \<open>2 ^ 1055\<close> or more makes the first division raise, and the request
  fails with the session unchanged.  A 2000 by 1000 source with target (500, 500)
  gives (500, 250); an 11 by 11 source with target (15, 15) gives (14, 14), because
  the double nearest to 15/11 times 11 is below 15; a 49 by 49 source with target
  (1, 1) gives (0, 0).
\<close>

theorem C6_resize_keep_aspect:
  assumes "current_image st = Some img" and "picture_image st = Some img"
    and "isize img = (W, H)" and "0 < W" and "W < 2 ^ 31" and "0 < H" and "H < 2 ^ 31"
    and "resize_aspect_request req tw th"
  shows "(0 < tw \<and> tw \<le> 2 ^ 900 \<and> 0 < th \<and> th \<le> 2 ^ 900 \<longrightarrow>
            handle_request lib st req =
              outcome lib st
                (lib_resize lib img (JInt (fst (aspect_size (W, H) (tw, th))),
                                     JInt (snd (aspect_size (W, H) (tw, th)))) LANCZOS))
       \<and> (2 ^ 1055 \<le> tw \<and> th \<noteq> 0 \<longrightarrow>
            handle_request lib st req =
              (st, Failure ''integer division result too large for a float''))
       \<and> keep_aspect_size (2000, 1000) (JInt 500, JInt 500) = Inr (500, 250)
       \<and> keep_aspect_size (11, 11) (JInt 15, JInt 15) = Inr (14, 14)
       \<and> keep_aspect_size (49, 49) (JInt 1, JInt 1) = Inr (0, 0)"
proof (intro conjI impI; (elim conjE)?)
  show "handle_request lib st req =
          outcome lib st
            (lib_resize lib img (JInt (fst (aspect_size (W, H) (tw, th))),
                                 JInt (snd (aspect_size (W, H) (tw, th)))) LANCZOS)"
    if "0 < tw" "tw \<le> 2 ^ 900" "0 < th" "th \<le> 2 ^ 900"
    using resize_aspect_outcome [OF assms(1,2,8), of lib] that(1,3)
      keep_aspect_bounded [OF assms(4-7) that] assms(3)
    by simp
  show "handle_request lib st req =
          (st, Failure ''integer division result too large for a float'')"
    if "2 ^ 1055 \<le> tw" "th \<noteq> 0"
  proof -
    from that(1) have "tw \<noteq> 0" by auto
    from resize_aspect_outcome [OF assms(1,2,8) this that(2), of lib]
      keep_aspect_overflow [OF assms(4,5) that(1), of H th] assms(3)
    show ?thesis by (simp add: outcome_def)
  qed
  have "aspect_size (2000, 1000) (500, 500) = (500, 250)" by code_simp
  moreover have "keep_aspect_size (2000, 1000) (JInt 500, JInt 500) =
      Inr (aspect_size (2000, 1000) (500, 500))"
    by (rule keep_aspect_bounded) simp_all
  ultimately show "keep_aspect_size (2000, 1000) (JInt 500, JInt 500) = Inr (500, 250)"
    by simp
  have "aspect_size (11, 11) (15, 15) = (14, 14)" by code_simp
  moreover have "keep_aspect_size (11, 11) (JInt 15, JInt 15) =
      Inr (aspect_size (11, 11) (15, 15))"
    by (rule keep_aspect_bounded) simp_all
  ultimately show "keep_aspect_size (11, 11) (JInt 15, JInt 15) = Inr (14, 14)"
    by simp
  have "aspect_size (49, 49) (1, 1) = (0, 0)" by code_simp
  moreover have "keep_aspect_size (49, 49) (JInt 1, JInt 1) =
      Inr (aspect_size (49, 49) (1, 1))"
    by (rule keep_aspect_bounded) simp_all
  ultimately show "keep_aspect_size (49, 49) (JInt 1, JInt 1) = Inr (0, 0)"
    by simp
qed

theorem C6_resize_keep_aspect_witness:
  "fst (handle_request demo_lib
     \<lparr>current_image = Some (image_new Mode_RGB (2000, 1000) [255, 255, 255]),
      original_image = None,
      picture_image = Some (image_new Mode_RGB (2000, 1000) [255, 255, 255])\<rparr>
     (Map.empty(''action'' \<mapsto> JStr ''resize'', ''width'' \<mapsto> JInt 500, ''height'' \<mapsto> JInt 500,
                ''keep_aspect'' \<mapsto> JBool True)))
   = \<lparr>current_image = Some ((image_new Mode_RGB (2000, 1000) [255, 255, 255])\<lparr>isize := (500, 250)\<rparr>),
      original_image = None,
      picture_image = Some ((image_new Mode_RGB (2000, 1000) [255, 255, 255])\<lparr>isize := (500, 250)\<rparr>)\<rparr>"
proof -
  let ?img = "image_new Mode_RGB (2000, 1000) [255, 255, 255]"
  let ?st = "\<lparr>current_image = Some ?img, original_image = None, picture_image = Some ?img\<rparr>"
  let ?req = "Map.empty(''action'' \<mapsto> JStr ''resize'', ''width'' \<mapsto> JInt 500,
                ''height'' \<mapsto> JInt 500, ''keep_aspect'' \<mapsto> JBool True)"
  have st: "current_image ?st = Some ?img" "picture_image ?st = Some ?img" by simp_all
  have sz: "isize ?img = (2000, 1000)" by (simp add: image_new_def)
  have rq: "resize_aspect_request ?req 500 500"
    by (simp add: resize_aspect_request_def rget_def rget_default_def)
  have b: "(0 :: int) < 500 \<and> (500 :: int) \<le> 2 ^ 900 \<and> (0 :: int) < 500 \<and> (500 :: int) \<le> 2 ^ 900"
    by simp
  have n: "(0 :: int) < 2000" "(2000 :: int) < 2 ^ 31" "(0 :: int) < 1000" "(1000 :: int) < 2 ^ 31"
    by simp_all
  have a: "aspect_size (2000, 1000) (500, 500) = (500, 250)" by code_simp
  have "handle_request demo_lib ?st ?req =
          outcome demo_lib ?st
            (lib_resize demo_lib ?img (JInt (fst (aspect_size (2000, 1000) (500, 500))),
                                 JInt (snd (aspect_size (2000, 1000) (500, 500)))) LANCZOS)"
    using C6_resize_keep_aspect [OF st sz n rq, where lib = demo_lib,
        THEN conjunct1, THEN mp, OF b] .
  then show ?thesis
    by (simp add: a outcome_def demo_lib_def set_size_def)
qed
end
